theory Spec2Isabelle
  imports Complex_Main "HOL-Library.Sublist" "HOL-Library.Word" "HOL-Library.Log_Nat"
begin

section \<open>AudioCutter Pro: the region and clip engine of the waveform editor\<close>

text \<open>
  The development embeds the handlers of the \<^verbatim>\<open>WaveformEditor\<close> component: the list of
  user clips (\<^verbatim>\<open>updateUserRegionsList\<close>), \<^verbatim>\<open>addRegion\<close>, \<^verbatim>\<open>removeRegion\<close>,
  \<^verbatim>\<open>exportRegion\<close>, \<^verbatim>\<open>handleTranscribe\<close> and \<^verbatim>\<open>renderTranscriptRegions\<close>.

  Conventions of the embedding.
  \<^item> A JavaScript number is a double. A finite double is held as the rational it denotes;
    a sum, a product or a difference is rounded to the nearest double, ties to even, and
    becomes an infinity when it overflows. NaN arises in the handlers only as the
    difference of two equal infinities.
  \<^item> An element of a \<^verbatim>\<open>Float32Array\<close> is either a finite value or NaN. Reading a typed
    array outside its bounds gives \<^verbatim>\<open>undefined\<close>, and storing \<^verbatim>\<open>undefined\<close> into a
    \<^verbatim>\<open>Float32Array\<close> stores NaN.
  \<^item> React state and the two refs are fields of one record, passed through every handler;
    a state setter takes effect at once. A handler reads the state variables of the
    render that created it: the handlers registered by the mounting effect read those of
    the first render for as long as the component is mounted; a button handler and the
    transcript effect read those of the current render.
  \<^item> The regions plugin of the waveform library is the ordered list of the regions it
    holds, in insertion order: \<^verbatim>\<open>getRegions\<close> reads the list, \<^verbatim>\<open>addRegion\<close> clamps the
    bounds it is given into the waveform's duration, appends the region and announces it
    with \<^verbatim>\<open>region-created\<close> (while the waveform has no duration yet it holds the region
    back until \<^verbatim>\<open>ready\<close>), and \<^verbatim>\<open>remove\<close> on a region takes that one region out of the
    list.
\<close>

subsection \<open>Numbers\<close>

definition pow2 :: "int \<Rightarrow> rat" where
  "pow2 e = (if 0 \<le> e then 2 ^ nat e else 1 / 2 ^ nat (- e))"

text \<open>For \<open>x \<noteq> 0\<close>, the exponent \<open>k\<close> with \<open>2\<^sup>k \<le> \<bar>x\<bar> < 2\<^sup>k\<^sup>+\<^sup>1\<close>.\<close>

definition ilog2 :: "rat \<Rightarrow> int" where
  "ilog2 x =
     (let p = fst (quotient_of \<bar>x\<bar>); q = snd (quotient_of \<bar>x\<bar>); d = bitlen p - bitlen q
      in if pow2 d \<le> \<bar>x\<bar> then d else d - 1)"

definition round_half_even :: "rat \<Rightarrow> int" where
  "round_half_even x =
     (let f = \<lfloor>x\<rfloor>; d = x - of_int f
      in if d < 1 / 2 then f else if 1 / 2 < d then f + 1 else if even f then f else f + 1)"

text \<open>
  Rounding to the double format with an unbounded exponent above: 53 significant bits
  down to the exponent \<open>-1022\<close>, multiples of \<open>2\<^sup>-\<^sup>1\<^sup>0\<^sup>7\<^sup>4\<close> below it.
\<close>

definition round_double :: "rat \<Rightarrow> rat" where
  "round_double x =
     (if x = 0 then 0
      else (let e = max (ilog2 x) (- 1022) - 52
            in of_int (round_half_even (x / pow2 e)) * pow2 e))"

datatype number = Num rat | Infinity | MinusInfinity

definition to_number :: "rat \<Rightarrow> number" where
  "to_number x =
     (let r = round_double x
      in if 2 ^ 1024 \<le> r then Infinity
         else if r \<le> - (2 ^ 1024) then MinusInfinity
         else Num r)"

text \<open>\<^verbatim>\<open>a + b\<close> and \<^verbatim>\<open>a * b\<close> for finite \<open>a\<close> and \<open>b\<close>.\<close>

definition js_plus :: "rat \<Rightarrow> rat \<Rightarrow> number" where
  "js_plus a b = to_number (a + b)"

definition js_times :: "rat \<Rightarrow> rat \<Rightarrow> number" where
  "js_times a b = to_number (a * b)"

text \<open>\<^verbatim>\<open>a - b\<close>; \<open>None\<close> is NaN.\<close>

fun js_minus :: "number \<Rightarrow> number \<Rightarrow> number option" where
  "js_minus (Num a) (Num b) = Some (to_number (a - b))"
| "js_minus (Num a) Infinity = Some MinusInfinity"
| "js_minus (Num a) MinusInfinity = Some Infinity"
| "js_minus Infinity Infinity = None"
| "js_minus Infinity b = Some Infinity"
| "js_minus MinusInfinity MinusInfinity = None"
| "js_minus MinusInfinity b = Some MinusInfinity"

fun Math_floor :: "number \<Rightarrow> number" where
  "Math_floor (Num x) = Num (of_int \<lfloor>x\<rfloor>)"
| "Math_floor Infinity = Infinity"
| "Math_floor MinusInfinity = MinusInfinity"

text \<open>\<^verbatim>\<open>x <= 0\<close>, false for NaN.\<close>

fun le_zero :: "number option \<Rightarrow> bool" where
  "le_zero (Some (Num x)) = (x \<le> 0)"
| "le_zero (Some MinusInfinity) = True"
| "le_zero (Some Infinity) = False"
| "le_zero None = False"

text \<open>
  The conversion of a number to the Web IDL type \<^verbatim>\<open>unsigned long\<close>, which an argument
  of that type undergoes: NaN and the infinities become 0, a finite value is truncated
  and taken modulo \<open>2\<^sup>3\<^sup>2\<close>.
\<close>

fun unsigned_long :: "number option \<Rightarrow> nat" where
  "unsigned_long (Some (Num x)) = nat ((if x < 0 then - \<lfloor>- x\<rfloor> else \<lfloor>x\<rfloor>) mod 2 ^ 32)"
| "unsigned_long (Some Infinity) = 0"
| "unsigned_long (Some MinusInfinity) = 0"
| "unsigned_long None = 0"

text \<open>The integer that a finite, integer-valued number denotes.\<close>

fun int_of :: "number \<Rightarrow> int" where
  "int_of (Num x) = \<lfloor>x\<rfloor>"
| "int_of Infinity = 0"
| "int_of MinusInfinity = 0"

subsection \<open>Audio buffers\<close>

datatype f32 = F32 rat | NaN

record AudioBuffer =
  sampleRate :: nat
  ab_length :: nat
  channels :: "f32 list list"

definition numberOfChannels :: "AudioBuffer \<Rightarrow> nat" where
  "numberOfChannels b = length (channels b)"

text \<open>\<^verbatim>\<open>buffer.getChannelData(i)\<close> for \<open>i < numberOfChannels\<close>.\<close>

definition getChannelData :: "AudioBuffer \<Rightarrow> nat \<Rightarrow> f32 list" where
  "getChannelData b i = channels b ! i"

datatype error = NotSupportedError

text \<open>
  What a call does: it returns a value, it throws, or it never returns.
\<close>

datatype 'a result = Returns 'a | Throws error | NeverReturns

text \<open>
  An audio context, as far as \<^verbatim>\<open>createBuffer\<close> shows it: which channel counts, lengths
  and sample rates it accepts. The ranges depend on the browser.
\<close>

type_synonym AudioContext = "nat \<Rightarrow> nat \<Rightarrow> nat \<Rightarrow> bool"

text \<open>
  \<^verbatim>\<open>new AudioContext().createBuffer(numberOfChannels, length, sampleRate)\<close>: the length is
  an \<^verbatim>\<open>unsigned long\<close>; a zero channel count, a zero length and values outside the
  ranges of the context raise \<^verbatim>\<open>NotSupportedError\<close>; otherwise every channel starts as
  \<open>length\<close> zeros.
\<close>

definition createBuffer :: "AudioContext \<Rightarrow> nat \<Rightarrow> number option \<Rightarrow> nat \<Rightarrow> error + AudioBuffer" where
  "createBuffer ctx n frameCount sr =
     (let len = unsigned_long frameCount
      in if n = 0 \<or> len = 0 \<or> \<not> ctx n len sr then Inl NotSupportedError
         else Inr \<lparr>sampleRate = sr, ab_length = len,
                   channels = replicate n (replicate len (F32 0))\<rparr>)"

text \<open>The read \<^verbatim>\<open>channelData[k]\<close> followed by the store into a \<^verbatim>\<open>Float32Array\<close>.\<close>

definition read_f32 :: "f32 list \<Rightarrow> int \<Rightarrow> f32" where
  "read_f32 a k = (if 0 \<le> k \<and> k < int (length a) then a ! nat k else NaN)"

subsection \<open>The slicing loops of \<^verbatim>\<open>exportRegion\<close>\<close>

text \<open>
  \<^verbatim>\<open>for (let j = 0; j < frameCount; j++) newChannelData[j] = channelData[startFrame + j]\<close>,
  entered at \<open>j\<close>. A store outside the new channel is ignored.
\<close>

function copy_frames :: "f32 list \<Rightarrow> int \<Rightarrow> nat \<Rightarrow> nat \<Rightarrow> f32 list \<Rightarrow> f32 list" where
  "copy_frames channelData startFrame frameCount j newChannelData =
     (if j < frameCount
      then copy_frames channelData startFrame frameCount (Suc j)
             (newChannelData[j := read_f32 channelData (startFrame + int j)])
      else newChannelData)"
  by pat_completeness auto
termination
  by (relation "measure (\<lambda>(cd, sf, fc, j, nd). fc - j)") auto

declare copy_frames.simps [simp del]

text \<open>
  \<^verbatim>\<open>for (let i = 0; i < buffer.numberOfChannels; i++) { ... }\<close>, entered at \<open>i\<close>; the
  inner loop writes into channel \<open>i\<close> of the new buffer.
\<close>

function copy_channels :: "AudioBuffer \<Rightarrow> int \<Rightarrow> nat \<Rightarrow> nat \<Rightarrow> AudioBuffer \<Rightarrow> AudioBuffer" where
  "copy_channels buffer startFrame frameCount i newBuffer =
     (if i < numberOfChannels buffer
      then copy_channels buffer startFrame frameCount (Suc i)
             (newBuffer\<lparr>channels := (channels newBuffer)
                [i := copy_frames (getChannelData buffer i) startFrame frameCount 0
                        (getChannelData newBuffer i)]\<rparr>)
      else newBuffer)"
  by pat_completeness auto
termination
  by (relation "measure (\<lambda>(b, sf, fc, i, nb). numberOfChannels b - i)") auto

declare copy_channels.simps [simp del]

text \<open>
  The counter \<open>j\<close> of the inner loop is a double: from \<open>2\<^sup>5\<^sup>3\<close> on, \<^verbatim>\<open>j++\<close> leaves it
  unchanged, so the loop ends only for a frame count of at most \<open>2\<^sup>5\<^sup>3\<close>.
\<close>

fun loop_ends :: "number option \<Rightarrow> bool" where
  "loop_ends (Some (Num fc)) = (fc \<le> 2 ^ 53)"
| "loop_ends (Some Infinity) = False"
| "loop_ends (Some MinusInfinity) = True"
| "loop_ends None = False"

fun frames_of :: "number option \<Rightarrow> nat" where
  "frames_of (Some x) = nat (int_of x)"
| "frames_of None = 0"

text \<open>
  Lines 221 to 240 of \<^verbatim>\<open>exportRegion\<close>: the frame indices, the early return on an empty
  range, the new buffer and the copy. \<open>Returns None\<close> is the early return.
\<close>

definition slice :: "AudioContext \<Rightarrow> AudioBuffer \<Rightarrow> rat \<Rightarrow> rat \<Rightarrow> AudioBuffer option result" where
  "slice ctx buffer start end_t =
     (let startFrame = Math_floor (js_times start (of_nat (sampleRate buffer)));
          endFrame = Math_floor (js_times end_t (of_nat (sampleRate buffer)));
          frameCount = js_minus endFrame startFrame
      in if le_zero frameCount then Returns None
         else (case createBuffer ctx (numberOfChannels buffer) frameCount (sampleRate buffer) of
                 Inl e \<Rightarrow> Throws e
               | Inr newBuffer \<Rightarrow>
                   if loop_ends frameCount
                   then Returns (Some (copy_channels buffer (int_of startFrame)
                                         (frames_of frameCount) 0 newBuffer))
                   else NeverReturns))"

subsection \<open>Regions, clips and transcript segments\<close>

text \<open>
  A region held by the regions plugin. \<open>ClipLabel\<close> is the fixed two-character label that
  \<^verbatim>\<open>addRegion\<close> gives a clip; \<open>TranscriptDiv text colour\<close> is the \<^verbatim>\<open>div\<close> element that
  \<^verbatim>\<open>renderTranscriptRegions\<close> builds (its text and its text colour; the other style
  properties are constants).
\<close>

datatype content = ClipLabel | TranscriptDiv string string

record Region =
  region_id :: string
  region_start :: rat
  region_end :: rat
  region_color :: string
  region_drag :: bool
  region_resize :: bool
  region_content :: content

text \<open>The object that the handlers pass to the plugin's \<^verbatim>\<open>addRegion\<close>.\<close>

record RegionParams =
  param_id :: "string option"
  param_start :: number
  param_end :: number
  param_color :: string
  param_drag :: bool
  param_resize :: bool
  param_content :: content

text \<open>\<^verbatim>\<open>RegionData\<close> of \<^verbatim>\<open>types.ts\<close>; \<^verbatim>\<open>label\<close> and \<^verbatim>\<open>color\<close> are optional.\<close>

record RegionData =
  data_id :: string
  data_start :: rat
  data_end :: rat
  data_label :: "string option"
  data_color :: "string option"

record TranscriptSegment =
  seg_start :: rat
  seg_end :: rat
  seg_text :: string

text \<open>What \<^verbatim>\<open>wavesurferRef.current\<close> answers to the three queries the handlers make.\<close>

record WaveSurfer =
  getCurrentTime :: rat
  getDuration :: rat
  getDecodedData :: "AudioBuffer option"

text \<open>
  The regions plugin: the regions it holds, and the regions that were added while the
  waveform had no duration and wait for \<^verbatim>\<open>ready\<close>.
\<close>

record RegionsPlugin =
  regions :: "Region list"
  waiting :: "Region list"

text \<open>
  The state variables and props that the closures of one render hold and the handlers
  read.
\<close>

record Render =
  r_isTranscribing :: bool
  r_showTranscriptOnWave :: bool
  r_isDarkMode :: bool
  r_enableTranscription :: bool

text \<open>
  The component's state: the two refs (\<open>None\<close> is \<^verbatim>\<open>null\<close>), the React state, the two
  props the handlers read, \<^verbatim>\<open>process.env.API_KEY\<close>, and the render whose closures the
  mounting effect registered. Three fields record effects that leave the component:
  \<open>in_flight\<close> counts the runs of \<^verbatim>\<open>handleTranscribe\<close> that are suspended at an
  \<^verbatim>\<open>await\<close>, \<open>upstream_calls\<close> counts the calls of \<^verbatim>\<open>ai.models.generateContent\<close>, and
  \<open>console_errors\<close> is what \<^verbatim>\<open>console.error\<close> printed.
\<close>

record Editor =
  wavesurferRef :: "WaveSurfer option"
  regionsPluginRef :: "RegionsPlugin option"
  isReady :: bool
  duration :: rat
  userRegions :: "RegionData list"
  activeRegionId :: "string option"
  isTranscribing :: bool
  transcriptSegments :: "TranscriptSegment list"
  showTranscriptOnWave :: bool
  isDarkMode :: bool
  enableTranscription :: bool
  API_KEY :: "string option"
  mount_render :: Render
  in_flight :: nat
  upstream_calls :: nat
  console_errors :: "string list"

definition current_render :: "Editor \<Rightarrow> Render" where
  "current_render s =
     \<lparr>r_isTranscribing = isTranscribing s, r_showTranscriptOnWave = showTranscriptOnWave s,
      r_isDarkMode = isDarkMode s, r_enableTranscription = enableTranscription s\<rparr>"

text \<open>\<^verbatim>\<open>r.id.startsWith('transcript-')\<close>.\<close>

definition is_transcript :: "Region \<Rightarrow> bool" where
  "is_transcript r = prefix ''transcript-'' (region_id r)"

text \<open>\<^verbatim>\<open>regionsPluginRef.current?.getRegions() || []\<close>.\<close>

definition getRegions :: "Editor \<Rightarrow> Region list" where
  "getRegions s = (case regionsPluginRef s of None \<Rightarrow> [] | Some p \<Rightarrow> regions p)"

subsection \<open>The clip list\<close>

text \<open>
  \<^verbatim>\<open>updateUserRegionsList\<close>: the array method \<^verbatim>\<open>sort\<close> is stable, and the comparator
  \<^verbatim>\<open>a.start - b.start\<close> orders by start time (the difference of two finite doubles is
  zero only if they are equal, and has the sign of the exact difference), so the sort is
  the stable insertion sort on the key \<open>region_start\<close>.
\<close>

definition to_RegionData :: "Region \<Rightarrow> RegionData" where
  "to_RegionData r =
     \<lparr>data_id = region_id r, data_start = region_start r, data_end = region_end r,
      data_label = None, data_color = Some (region_color r)\<rparr>"

definition formattedRegions :: "Region list \<Rightarrow> RegionData list" where
  "formattedRegions wsRegions =
     map to_RegionData (sort_key region_start (filter (\<lambda>r. \<not> is_transcript r) wsRegions))"

definition updateUserRegionsList :: "Region list \<Rightarrow> Editor \<Rightarrow> Editor" where
  "updateUserRegionsList wsRegions s = s\<lparr>userRegions := formattedRegions wsRegions\<rparr>"

subsection \<open>The regions plugin and its events\<close>

text \<open>The handler of \<^verbatim>\<open>region-created\<close>.\<close>

definition on_region_created :: "Region \<Rightarrow> Editor \<Rightarrow> Editor" where
  "on_region_created region s =
     (if is_transcript region then s
      else updateUserRegionsList (getRegions s) (s\<lparr>activeRegionId := Some (region_id region)\<rparr>))"

text \<open>
  The plugin's \<^verbatim>\<open>clampPosition\<close>,
  \<^verbatim>\<open>Math.max(0, Math.min(totalDuration, time))\<close>.
\<close>

fun clampPosition :: "rat \<Rightarrow> number \<Rightarrow> rat" where
  "clampPosition totalDuration (Num time) = max 0 (min totalDuration time)"
| "clampPosition totalDuration Infinity = max 0 totalDuration"
| "clampPosition totalDuration MinusInfinity = 0"

text \<open>
  The region that the plugin constructs from the parameters: the id is the given one or,
  when none (or an empty one) is given, \<^verbatim>\<open>region-\<close> followed by random characters, here
  the argument \<open>rnd\<close>; both bounds are clamped into the duration.
\<close>

definition SingleRegion :: "rat \<Rightarrow> string \<Rightarrow> RegionParams \<Rightarrow> Region" where
  "SingleRegion totalDuration rnd params =
     \<lparr>region_id = (case param_id params of
                      None \<Rightarrow> ''region-'' @ rnd
                    | Some i \<Rightarrow> if i = [] then ''region-'' @ rnd else i),
      region_start = clampPosition totalDuration (param_start params),
      region_end = clampPosition totalDuration (param_end params),
      region_color = param_color params,
      region_drag = param_drag params,
      region_resize = param_resize params,
      region_content = param_content params\<rparr>"

text \<open>
  The plugin's \<^verbatim>\<open>saveRegion\<close>: it stores the region at the end of its list and emits
  \<^verbatim>\<open>region-created\<close>.
\<close>

definition saveRegion :: "Region \<Rightarrow> Editor \<Rightarrow> Editor" where
  "saveRegion region s =
     (case regionsPluginRef s of
        None \<Rightarrow> s
      | Some p \<Rightarrow>
          on_region_created region (s\<lparr>regionsPluginRef := Some (p\<lparr>regions := regions p @ [region]\<rparr>)\<rparr>))"

text \<open>
  The duration that the plugin reads from the waveform it is registered with, which is
  the one the ref holds; without a waveform there is no duration yet.
\<close>

definition plugin_duration :: "Editor \<Rightarrow> rat" where
  "plugin_duration s = (case wavesurferRef s of None \<Rightarrow> 0 | Some ws \<Rightarrow> getDuration ws)"

text \<open>
  \<^verbatim>\<open>regionsPluginRef.current.addRegion(params)\<close>: the plugin constructs the region with
  the current duration and saves it; while the duration is zero it saves the region only
  when the waveform reports \<^verbatim>\<open>ready\<close>.
\<close>

definition plugin_addRegion :: "string \<Rightarrow> RegionParams \<Rightarrow> Editor \<Rightarrow> Editor" where
  "plugin_addRegion rnd params s =
     (case regionsPluginRef s of
        None \<Rightarrow> s
      | Some p \<Rightarrow>
          (let region = SingleRegion (plugin_duration s) rnd params
           in if plugin_duration s = 0
              then s\<lparr>regionsPluginRef := Some (p\<lparr>waiting := waiting p @ [region]\<rparr>)\<rparr>
              else saveRegion region s))"

text \<open>The plugin's part of \<^verbatim>\<open>ready\<close>: the regions that waited are saved, in their order.\<close>

definition plugin_on_ready :: "Editor \<Rightarrow> Editor" where
  "plugin_on_ready s =
     (case regionsPluginRef s of
        None \<Rightarrow> s
      | Some p \<Rightarrow> fold saveRegion (waiting p) (s\<lparr>regionsPluginRef := Some (p\<lparr>waiting := []\<rparr>)\<rparr>))"

text \<open>
  \<^verbatim>\<open>region.remove()\<close>: the plugin drops that one region object. No handler of the
  component listens to the removal.
\<close>

definition region_remove :: "Region \<Rightarrow> Editor \<Rightarrow> Editor" where
  "region_remove region s =
     s\<lparr>regionsPluginRef :=
         map_option (\<lambda>p. p\<lparr>regions := remove1 region (regions p)\<rparr>) (regionsPluginRef s)\<rparr>"

text \<open>The handler of \<^verbatim>\<open>region-updated\<close>.\<close>

definition on_region_updated :: "Region \<Rightarrow> Editor \<Rightarrow> Editor" where
  "on_region_updated region s =
     (if is_transcript region then s else updateUserRegionsList (getRegions s) s)"

text \<open>
  A drag or resize gesture on the waveform: the plugin gives the region at position \<open>k\<close> of
  its list new bounds and emits \<^verbatim>\<open>region-updated\<close>.
\<close>

definition plugin_moveRegion :: "nat \<Rightarrow> rat \<Rightarrow> rat \<Rightarrow> Editor \<Rightarrow> Editor" where
  "plugin_moveRegion k start end_t s =
     (case regionsPluginRef s of
        None \<Rightarrow> s
      | Some p \<Rightarrow>
          (if k < length (regions p)
           then (let region = (regions p ! k)\<lparr>region_start := start, region_end := end_t\<rparr>
                 in on_region_updated region
                      (s\<lparr>regionsPluginRef := Some (p\<lparr>regions := (regions p)[k := region]\<rparr>)\<rparr>))
           else s))"

subsection \<open>\<^verbatim>\<open>addRegion\<close> and \<^verbatim>\<open>removeRegion\<close>\<close>

text \<open>
  \<^verbatim>\<open>addRegion\<close> passes no id, so the plugin names the region itself; \<open>rnd\<close> stands for
  the random characters it draws.
\<close>

definition addRegion :: "string \<Rightarrow> Editor \<Rightarrow> Editor" where
  "addRegion rnd s =
     (case regionsPluginRef s of
        None \<Rightarrow> s
      | Some p \<Rightarrow>
          (case wavesurferRef s of
             None \<Rightarrow> s
           | Some ws \<Rightarrow>
               (let currentTime = getCurrentTime ws
                in plugin_addRegion rnd
                     \<lparr>param_id = None,
                      param_start = Num currentTime,
                      param_end = js_plus currentTime 5,
                      param_color = ''rgba(99, 102, 241, 0.3)'',
                      param_drag = True,
                      param_resize = True,
                      param_content = ClipLabel\<rparr> s)))"

definition removeRegion :: "string \<Rightarrow> Editor \<Rightarrow> Editor" where
  "removeRegion i s =
     (let s' = (case regionsPluginRef s of
                  None \<Rightarrow> s
                | Some p \<Rightarrow>
                    (case find (\<lambda>r. region_id r = i) (regions p) of
                       None \<Rightarrow> s
                     | Some region \<Rightarrow> region_remove region s))
      in updateUserRegionsList (getRegions s') s')"

subsection \<open>The transcript overlay\<close>

text \<open>\<^verbatim>\<open>String(n)\<close> for a natural number: its decimal digits.\<close>

function String_nat :: "nat \<Rightarrow> string" where
  "String_nat n =
     (if n < 10 then [''0123456789'' ! n]
      else String_nat (n div 10) @ [''0123456789'' ! (n mod 10)])"
  by pat_completeness auto
termination
  by (relation "measure (\<lambda>n. n)") auto

declare String_nat.simps [simp del]

text \<open>The first \<^verbatim>\<open>forEach\<close> of \<^verbatim>\<open>renderTranscriptRegions\<close>, over the array read before it.\<close>

fun remove_transcript_regions :: "Region list \<Rightarrow> Editor \<Rightarrow> Editor" where
  "remove_transcript_regions [] s = s"
| "remove_transcript_regions (r # rs) s =
     remove_transcript_regions rs (if is_transcript r then region_remove r s else s)"

text \<open>
  The parameters that the second \<^verbatim>\<open>forEach\<close> passes for segment \<open>seg\<close> at index \<open>idx\<close>.
\<close>

definition transcript_params :: "bool \<Rightarrow> nat \<Rightarrow> TranscriptSegment \<Rightarrow> RegionParams" where
  "transcript_params dark idx seg =
     \<lparr>param_id = Some (''transcript-'' @ String_nat idx),
      param_start = Num (seg_start seg),
      param_end = Num (seg_end seg),
      param_color = (if dark then ''rgba(255, 255, 255, 0.05)'' else ''rgba(0, 0, 0, 0.05)''),
      param_drag = False,
      param_resize = False,
      param_content = TranscriptDiv (seg_text seg) (if dark then ''#e0e7ff'' else ''#312e81'')\<rparr>"

fun add_transcript_regions :: "bool \<Rightarrow> nat \<Rightarrow> TranscriptSegment list \<Rightarrow> Editor \<Rightarrow> Editor" where
  "add_transcript_regions dark idx [] s = s"
| "add_transcript_regions dark idx (seg # segments) s =
     add_transcript_regions dark (Suc idx) segments
       (plugin_addRegion [] (transcript_params dark idx seg) s)"

text \<open>
  \<^verbatim>\<open>renderTranscriptRegions\<close> of the render \<open>r\<close>: it reads \<^verbatim>\<open>showTranscriptOnWave\<close> and
  \<^verbatim>\<open>isDarkMode\<close> of that render.
\<close>

definition renderTranscriptRegions :: "Render \<Rightarrow> TranscriptSegment list \<Rightarrow> Editor \<Rightarrow> Editor" where
  "renderTranscriptRegions r segments s =
     (case regionsPluginRef s of
        None \<Rightarrow> s
      | Some p \<Rightarrow>
          (let s1 = remove_transcript_regions (regions p) s
           in if \<not> r_showTranscriptOnWave r then s1
              else add_transcript_regions (r_isDarkMode r) 0 segments s1))"

subsection \<open>Transcription\<close>

text \<open>
  \<^verbatim>\<open>handleTranscribe\<close> of the render \<open>r\<close>, up to its first \<^verbatim>\<open>await\<close>: it reads
  \<^verbatim>\<open>isTranscribing\<close> of that render. \<^verbatim>\<open>!process.env.API_KEY\<close> holds for a missing key
  and for the empty string.
\<close>

definition no_api_key :: "Editor \<Rightarrow> bool" where
  "no_api_key s = (case API_KEY s of None \<Rightarrow> True | Some k \<Rightarrow> k = [])"

definition handleTranscribe :: "Render \<Rightarrow> Editor \<Rightarrow> Editor" where
  "handleTranscribe r s =
     (if no_api_key s \<or> r_isTranscribing r then s
      else s\<lparr>isTranscribing := True, in_flight := Suc (in_flight s)\<rparr>)"

text \<open>
  The rest of a suspended run, by what its awaits deliver: the file read fails (no upstream
  call is made), the upstream call fails, the answer is not JSON, or the answer parses to
  segments, which the run renders with \<^verbatim>\<open>renderTranscriptRegions\<close> of its own render.
  The \<^verbatim>\<open>finally\<close> block clears the flag in every case.
\<close>

datatype outcome = ReadFailed | CallFailed | NotJSON | Parsed "TranscriptSegment list"

definition handleTranscribe_resume :: "Render \<Rightarrow> outcome \<Rightarrow> Editor \<Rightarrow> Editor" where
  "handleTranscribe_resume r out s =
     (let s1 = (case out of
                  ReadFailed \<Rightarrow>
                    s\<lparr>console_errors := console_errors s @ [''Transcription failed'']\<rparr>
                | CallFailed \<Rightarrow>
                    s\<lparr>upstream_calls := Suc (upstream_calls s),
                      console_errors := console_errors s @ [''Transcription failed'']\<rparr>
                | NotJSON \<Rightarrow>
                    s\<lparr>upstream_calls := Suc (upstream_calls s),
                      console_errors := console_errors s @ [''JSON parse error'']\<rparr>
                | Parsed parsed \<Rightarrow>
                    renderTranscriptRegions r parsed
                      (s\<lparr>upstream_calls := Suc (upstream_calls s),
                         transcriptSegments := parsed\<rparr>))
      in s1\<lparr>isTranscribing := False, in_flight := in_flight s1 - 1\<rparr>)"

text \<open>
  The handler of \<^verbatim>\<open>ready\<close>, registered by the mounting effect: \<^verbatim>\<open>enableTranscription\<close>
  and \<^verbatim>\<open>handleTranscribe\<close> are those of the first render. \<open>d\<close> is what
  \<^verbatim>\<open>ws.getDuration()\<close> returns.
\<close>

definition on_ready :: "rat \<Rightarrow> Editor \<Rightarrow> Editor" where
  "on_ready d s =
     (let s1 = s\<lparr>isReady := True, duration := d\<rparr>
      in if r_enableTranscription (mount_render s1)
         then handleTranscribe (mount_render s1) s1 else s1)"

subsection \<open>The WAV encoder\<close>

type_synonym byte = "8 word"

definition u16le :: "16 word \<Rightarrow> byte list" where
  "u16le w = [ucast w, ucast (drop_bit 8 w)]"

definition u32le :: "32 word \<Rightarrow> byte list" where
  "u32le w = [ucast w, ucast (drop_bit 8 w), ucast (drop_bit 16 w), ucast (drop_bit 24 w)]"

definition ascii :: "string \<Rightarrow> byte list" where
  "ascii cs = map (\<lambda>c. word_of_nat (of_char c)) cs"

text \<open>
  Modelled from the spec: \<^verbatim>\<open>audioBufferToWav\<close> of \<^verbatim>\<open>utils/audioUtils\<close>, which
  \<^verbatim>\<open>exportRegion\<close> calls and which is not among the sources. The spec asks for the canonical
  uncompressed PCM container: a header of fixed size that declares the format, the channel
  count, the sample rate, 16 bits per sample, the block alignment and the byte rate, with
  size fields equal to the payload length, followed by the samples interleaved frame by
  frame, each as a signed 16-bit integer. The header below is the 44-byte RIFF header.
  The spec says that a sample is scaled and clamped into the 16-bit range and gives no
  scale, so the conversion of one sample is the argument \<open>q\<close>.
\<close>

definition wav_header :: "nat \<Rightarrow> nat \<Rightarrow> nat \<Rightarrow> byte list" where
  "wav_header nch sr dataLen =
     ascii ''RIFF'' @ u32le (word_of_nat (36 + dataLen)) @ ascii ''WAVE'' @
     ascii ''fmt '' @ u32le 16 @ u16le 1 @ u16le (word_of_nat nch) @
     u32le (word_of_nat sr) @ u32le (word_of_nat (sr * nch * 2)) @
     u16le (word_of_nat (nch * 2)) @ u16le 16 @
     ascii ''data'' @ u32le (word_of_nat dataLen)"

definition interleave :: "(f32 \<Rightarrow> 16 word) \<Rightarrow> AudioBuffer \<Rightarrow> byte list" where
  "interleave q b =
     concat (map (\<lambda>j. concat (map (\<lambda>cd. u16le (q (read_f32 cd (int j)))) (channels b)))
               [0..<ab_length b])"

definition audioBufferToWav :: "(f32 \<Rightarrow> 16 word) \<Rightarrow> AudioBuffer \<Rightarrow> byte list" where
  "audioBufferToWav q b =
     wav_header (numberOfChannels b) (sampleRate b) (ab_length b * numberOfChannels b * 2) @
     interleave q b"

subsection \<open>\<^verbatim>\<open>exportRegion\<close>\<close>

text \<open>
  \<^verbatim>\<open>exportRegion\<close> up to the blob it offers for download; \<open>Returns None\<close> is any of its
  early returns. The anchor element and the download name are not modelled.
\<close>

definition exportRegion ::
  "AudioContext \<Rightarrow> (f32 \<Rightarrow> 16 word) \<Rightarrow> string \<Rightarrow> Editor \<Rightarrow> byte list option result" where
  "exportRegion ctx q i s =
     (case wavesurferRef s of
        None \<Rightarrow> Returns None
      | Some ws \<Rightarrow>
          (case find (\<lambda>r. region_id r = i) (getRegions s) of
             None \<Rightarrow> Returns None
           | Some region \<Rightarrow>
               (case getDecodedData ws of
                  None \<Rightarrow> Returns None
                | Some buffer \<Rightarrow>
                    (case slice ctx buffer (region_start region) (region_end region) of
                       Returns None \<Rightarrow> Returns None
                     | Returns (Some newBuffer) \<Rightarrow> Returns (Some (audioBufferToWav q newBuffer))
                     | Throws e \<Rightarrow> Throws e
                     | NeverReturns \<Rightarrow> NeverReturns))))"

subsection \<open>The session\<close>

text \<open>
  The state once the mounting effect has run: the initial values of the \<^verbatim>\<open>useState\<close>
  calls, both refs set, the plugin empty, and the first render with its props.
\<close>

definition mounted :: "WaveSurfer \<Rightarrow> bool \<Rightarrow> bool \<Rightarrow> string option \<Rightarrow> Editor" where
  "mounted ws dark enable key =
     \<lparr>wavesurferRef = Some ws, regionsPluginRef = Some \<lparr>regions = [], waiting = []\<rparr>,
      isReady = False, duration = 0, userRegions = [], activeRegionId = None,
      isTranscribing = False, transcriptSegments = [], showTranscriptOnWave = True,
      isDarkMode = dark, enableTranscription = enable, API_KEY = key,
      mount_render = \<lparr>r_isTranscribing = False, r_showTranscriptOnWave = True,
                      r_isDarkMode = dark, r_enableTranscription = enable\<rparr>,
      in_flight = 0, upstream_calls = 0, console_errors = []\<rparr>"

text \<open>
  The eye button sets \<^verbatim>\<open>showTranscriptOnWave\<close> to its negation, and the effect that
  depends on it renders the stored segments again, in the new render. A change of the
  theme prop runs the same effect.
\<close>

definition toggleTranscript :: "Editor \<Rightarrow> Editor" where
  "toggleTranscript s =
     (let s1 = s\<lparr>showTranscriptOnWave := \<not> showTranscriptOnWave s\<rparr>
      in renderTranscriptRegions (current_render s1) (transcriptSegments s1) s1)"

definition toggleTheme :: "Editor \<Rightarrow> Editor" where
  "toggleTheme s =
     (let s1 = s\<lparr>isDarkMode := \<not> isDarkMode s\<rparr>
      in renderTranscriptRegions (current_render s1) (transcriptSegments s1) s1)"

text \<open>
  What can happen to a session: the waveform finishes loading (from then on it answers as
  the given one) and reports \<^verbatim>\<open>ready\<close>, first to the component and then to the plugin;
  the playback position moves; a clip is added with the button or by a drag selection
  (the plugin then constructs the region from the gesture); a region is moved or resized;
  a clip is removed; the overlay or the theme is toggled; or a suspended run of
  \<^verbatim>\<open>handleTranscribe\<close>, which only the \<^verbatim>\<open>ready\<close> handler starts, is resumed with the
  outcome of its awaits (only a suspended run can be resumed).
\<close>

datatype event =
    Ready WaveSurfer
  | TimeUpdate rat
  | AddRegion string
  | DragSelect string RegionParams
  | MoveRegion nat rat rat
  | RemoveRegion string
  | ToggleTranscript
  | ToggleTheme
  | Settle outcome

fun step :: "event \<Rightarrow> Editor \<Rightarrow> Editor" where
  "step (Ready ws) s = plugin_on_ready (on_ready (getDuration ws) (s\<lparr>wavesurferRef := Some ws\<rparr>))"
| "step (TimeUpdate t) s =
     s\<lparr>wavesurferRef := map_option (\<lambda>ws. ws\<lparr>getCurrentTime := t\<rparr>) (wavesurferRef s)\<rparr>"
| "step (AddRegion rnd) s = addRegion rnd s"
| "step (DragSelect rnd params) s = plugin_addRegion rnd params s"
| "step (MoveRegion k start end_t) s = plugin_moveRegion k start end_t s"
| "step (RemoveRegion i) s = removeRegion i s"
| "step ToggleTranscript s = toggleTranscript s"
| "step ToggleTheme s = toggleTheme s"
| "step (Settle out) s =
     (if in_flight s = 0 then s else handleTranscribe_resume (mount_render s) out s)"

section \<open>What the arithmetic computes\<close>

lemma round_half_even_int [simp]: "round_half_even (of_int m) = m"
  by (simp add: round_half_even_def)

lemma round_half_even_nonpos: "x \<le> 0 \<Longrightarrow> round_half_even x \<le> 0"
proof -
  assume x: "x \<le> 0"
  show ?thesis
  proof (cases "x = 0")
    case True
    then show ?thesis by (simp add: round_half_even_def)
  next
    case False
    with x have "x < 0" by simp
    then have f: "\<lfloor>x\<rfloor> \<le> - 1"
      by (simp add: floor_le_iff)
    show ?thesis
    proof (cases "\<lfloor>x\<rfloor> = - 1")
      case True
      then show ?thesis
        by (simp add: round_half_even_def Let_def)
    next
      case False
      with f have "\<lfloor>x\<rfloor> + 1 \<le> 0" by linarith
      with f show ?thesis
        by (simp add: round_half_even_def Let_def)
    qed
  qed
qed

lemma pow2_pos: "0 < pow2 e"
  by (simp add: pow2_def)

lemma pow2_nonpos: "e \<le> 0 \<Longrightarrow> pow2 e = 1 / 2 ^ nat (- e)"
  by (cases "e = 0") (simp_all add: pow2_def)

lemma round_double_nonpos: "x \<le> 0 \<Longrightarrow> round_double x \<le> 0"
proof -
  assume x: "x \<le> 0"
  define e where "e = max (ilog2 x) (- 1022) - 52"
  have "x / pow2 e \<le> 0"
    using x pow2_pos [of e] by (simp add: divide_le_0_iff)
  then have "rat_of_int (round_half_even (x / pow2 e)) \<le> 0"
    using round_half_even_nonpos by simp
  then have "rat_of_int (round_half_even (x / pow2 e)) * pow2 e \<le> 0"
    using pow2_pos [of e] by (simp add: mult_le_0_iff)
  then show ?thesis
    by (simp add: round_double_def Let_def e_def)
qed

lemma le_zero_to_number: "x \<le> 0 \<Longrightarrow> le_zero (Some (to_number x))"
proof -
  assume "x \<le> 0"
  then have r: "round_double x \<le> 0"
    by (rule round_double_nonpos)
  define B :: rat where "B = 2 ^ 1024"
  have "0 < B"
    unfolding B_def by (rule zero_less_power) simp
  with r have "\<not> B \<le> round_double x"
    by linarith
  with r show ?thesis
    unfolding to_number_def Let_def B_def [symmetric] by simp
qed

lemma quotient_of_abs_int: "quotient_of \<bar>rat_of_int n\<bar> = (\<bar>n\<bar>, 1)"
proof -
  have "\<bar>rat_of_int n\<bar> = Rat.of_int \<bar>n\<bar>"
    by (simp add: Rat.of_int_def)
  then show ?thesis
    by (simp only: quotient_of_int)
qed

lemma bitlen_one: "bitlen 1 = 1"
  by (simp add: bitlen_alt_def)

lemma ilog2_int_le:
  assumes "n \<noteq> 0" and "\<bar>n\<bar> < 2 ^ 53"
  shows "ilog2 (of_int n) \<le> 52"
proof -
  have "bitlen \<bar>n\<bar> \<le> 53"
    using assms by (simp add: bitlen_le_iff_power)
  then have "bitlen \<bar>n\<bar> - 1 \<le> 52"
    by simp
  then show ?thesis
    unfolding ilog2_def Let_def quotient_of_abs_int fst_conv snd_conv bitlen_one
    by simp
qed

lemma round_double_int:
  assumes "\<bar>n\<bar> < 2 ^ 53"
  shows "round_double (of_int n) = of_int n"
proof (cases "n = 0")
  case True
  then show ?thesis by (simp add: round_double_def)
next
  case False
  define e where "e = max (ilog2 (rat_of_int n)) (- 1022) - 52"
  have e: "e \<le> 0"
    using ilog2_int_le [OF False assms] by (simp add: e_def)
  define k where "k = nat (- e)"
  have p: "pow2 e = 1 / 2 ^ k"
    unfolding k_def using e by (rule pow2_nonpos)
  have "rat_of_int n / pow2 e = of_int (n * 2 ^ k)"
    by (simp add: p)
  then have "round_half_even (rat_of_int n / pow2 e) = n * 2 ^ k"
    by (simp only: round_half_even_int)
  then have "of_int (round_half_even (rat_of_int n / pow2 e)) * pow2 e = rat_of_int n"
    by (simp add: p)
  with False show ?thesis
    unfolding round_double_def Let_def e_def by simp
qed

lemma to_number_int:
  assumes "\<bar>n\<bar> < 2 ^ 53"
  shows "to_number (of_int n) = Num (of_int n)"
proof -
  define B :: rat where "B = 2 ^ 1024"
  have "rat_of_int \<bar>n\<bar> < rat_of_int (2 ^ 53)"
    using assms by (simp only: of_int_less_iff)
  then have "\<bar>rat_of_int n\<bar> < 2 ^ 53"
    by simp
  moreover have "(2::rat) ^ 53 \<le> B"
    unfolding B_def by (rule power_increasing) simp_all
  ultimately have "\<not> B \<le> rat_of_int n" "\<not> rat_of_int n \<le> - B"
    by linarith+
  then show ?thesis
    unfolding to_number_def Let_def round_double_int [OF assms] B_def [symmetric]
    by (simp only: if_False)
qed

text \<open>The difference of two frame indices.\<close>

lemma frame_difference:
  assumes "\<bar>ef - sf\<bar> < 2 ^ 53"
  shows "js_minus (Num (of_int ef)) (Num (of_int sf)) = Some (Num (of_int (ef - sf)))"
proof -
  have "to_number (rat_of_int ef - rat_of_int sf) = Num (rat_of_int (ef - sf))"
    using to_number_int [OF assms] by simp
  then show ?thesis by simp
qed

lemma frame_difference_le_zero:
  assumes "ef \<le> sf"
  shows "le_zero (js_minus (Num (of_int ef)) (Num (of_int sf)))"
proof -
  have "rat_of_int ef - rat_of_int sf \<le> 0"
    using assms by simp
  then show ?thesis
    by (simp add: le_zero_to_number)
qed

lemma js_times_int:
  assumes "a * b = rat_of_int n" and "\<bar>n\<bar> < 2 ^ 53"
  shows "Math_floor (js_times a b) = Num (of_int n)"
  using to_number_int [OF assms(2)] assms(1) by (simp add: js_times_def)

section \<open>What the loops compute\<close>

lemma length_copy_frames [simp]:
  "length (copy_frames cd sf fc j nd) = length nd"
  by (induction cd sf fc j nd rule: copy_frames.induct)
     (subst copy_frames.simps, simp)

lemma copy_frames_nth:
  "length nd = fc \<Longrightarrow> k < fc \<Longrightarrow>
   copy_frames cd sf fc j nd ! k = (if j \<le> k then read_f32 cd (sf + int k) else nd ! k)"
proof (induction cd sf fc j nd rule: copy_frames.induct)
  case (1 cd sf fc j nd)
  show ?case
  proof (cases "j < fc")
    case True
    have "copy_frames cd sf fc j nd ! k =
          copy_frames cd sf fc (Suc j) (nd[j := read_f32 cd (sf + int j)]) ! k"
      by (subst copy_frames.simps) (simp add: True)
    also have "\<dots> = (if Suc j \<le> k then read_f32 cd (sf + int k)
                     else (nd[j := read_f32 cd (sf + int j)]) ! k)"
      using "1.IH" [OF True] "1.prems" by simp
    also have "\<dots> = (if j \<le> k then read_f32 cd (sf + int k) else nd ! k)"
      using "1.prems" True by (cases "j = k") auto
    finally show ?thesis .
  next
    case False
    then show ?thesis
      using "1.prems" by (subst copy_frames.simps) simp
  qed
qed

lemma copy_frames_all:
  "length nd = fc \<Longrightarrow>
   copy_frames cd sf fc 0 nd = map (\<lambda>j. read_f32 cd (sf + int j)) [0..<fc]"
  by (rule nth_equalityI) (simp_all add: copy_frames_nth)

lemma copy_channels_fields [simp]:
  "sampleRate (copy_channels b sf fc i nb) = sampleRate nb"
  "ab_length (copy_channels b sf fc i nb) = ab_length nb"
  by (induction b sf fc i nb rule: copy_channels.induct,
      subst copy_channels.simps, simp)+

lemma copy_channels_channels:
  "length (channels nb) = numberOfChannels b \<Longrightarrow> list_all (\<lambda>c. length c = fc) (channels nb) \<Longrightarrow>
   channels (copy_channels b sf fc i nb) =
     take i (channels nb) @
     map (\<lambda>cd. map (\<lambda>j. read_f32 cd (sf + int j)) [0..<fc]) (drop i (channels b))"
proof (induction b sf fc i nb rule: copy_channels.induct)
  case (1 b sf fc i nb)
  show ?case
  proof (cases "i < numberOfChannels b")
    case True
    define X where "X = copy_frames (getChannelData b i) sf fc 0 (getChannelData nb i)"
    define nb' where "nb' = nb\<lparr>channels := (channels nb)[i := X]\<rparr>"
    have len_i: "length (channels nb ! i) = fc"
      using "1.prems" True by (simp add: list_all_length)
    have X_eq: "X = map (\<lambda>j. read_f32 (channels b ! i) (sf + int j)) [0..<fc]"
      unfolding X_def getChannelData_def by (rule copy_frames_all) (rule len_i)
    have len': "length (channels nb') = numberOfChannels b"
      using "1.prems" by (simp add: nb'_def)
    have len_X: "length X = fc"
      by (simp add: X_eq)
    have all': "list_all (\<lambda>c. length c = fc) (channels nb')"
      using "1.prems" len_X True by (auto simp: nb'_def list_all_length nth_list_update)
    have unfold: "copy_channels b sf fc i nb = copy_channels b sf fc (Suc i) nb'"
      by (subst copy_channels.simps) (simp add: True nb'_def X_def)
    have "channels (copy_channels b sf fc (Suc i) nb') =
          take (Suc i) (channels nb') @
          map (\<lambda>cd. map (\<lambda>j. read_f32 cd (sf + int j)) [0..<fc]) (drop (Suc i) (channels b))"
      using "1.IH" [OF True, folded X_def, folded nb'_def] len' all' by simp
    moreover have "take (Suc i) (channels nb') = take i (channels nb) @ [X]"
      using "1.prems" True by (simp add: nb'_def take_Suc_conv_app_nth)
    moreover have "drop i (channels b) = (channels b ! i) # drop (Suc i) (channels b)"
      using True by (simp add: numberOfChannels_def Cons_nth_drop_Suc)
    ultimately show ?thesis
      by (simp add: unfold X_eq)
  next
    case False
    then show ?thesis
      using "1.prems" by (subst copy_channels.simps) (simp add: numberOfChannels_def)
  qed
qed

text \<open>
  The slicer on frame indices \<open>sf\<close> and \<open>ef\<close> that are less than \<open>2\<^sup>3\<^sup>2\<close> apart.
\<close>

lemma slice_frames:
  assumes sf: "Math_floor (js_times start (of_nat (sampleRate buffer))) = Num (of_int sf)"
      and ef: "Math_floor (js_times end_t (of_nat (sampleRate buffer))) = Num (of_int ef)"
      and small: "ef - sf < 2 ^ 32"
  shows "slice ctx buffer start end_t =
     (if ef \<le> sf then Returns None
      else if numberOfChannels buffer = 0 \<or>
              \<not> ctx (numberOfChannels buffer) (nat (ef - sf)) (sampleRate buffer)
           then Throws NotSupportedError
           else Returns (Some \<lparr>sampleRate = sampleRate buffer, ab_length = nat (ef - sf),
                  channels = map (\<lambda>cd. map (\<lambda>j. read_f32 cd (sf + int j)) [0..<nat (ef - sf)])
                               (channels buffer)\<rparr>))"
proof (cases "ef \<le> sf")
  case True
  then have "le_zero (js_minus (Num (of_int ef)) (Num (of_int sf)))"
    by (rule frame_difference_le_zero)
  with True show ?thesis
    by (simp add: slice_def Let_def sf ef del: js_minus.simps)
next
  case False
  define fc where "fc = nat (ef - sf)"
  have fc: "0 < ef - sf" "int fc = ef - sf"
    using False by (simp_all add: fc_def)
  have "\<bar>ef - sf\<bar> < 2 ^ 32"
    using small False by simp
  also have "(2::int) ^ 32 < 2 ^ 53"
    by (rule power_strict_increasing) simp_all
  finally have "js_minus (Num (of_int ef)) (Num (of_int sf)) = Some (Num (of_int (ef - sf)))"
    by (rule frame_difference)
  moreover define D where "D = Some (Num (rat_of_int (ef - sf)))"
  ultimately have d: "js_minus (Num (of_int ef)) (Num (of_int sf)) = D"
    by simp
  have nle: "\<not> le_zero D"
    using fc by (simp add: D_def)
  have ul: "unsigned_long D = fc"
    using fc small by (simp add: fc_def D_def)
  have "rat_of_int (ef - sf) \<le> rat_of_int (2 ^ 53)"
    using small by (simp only: of_int_le_iff) (simp add: order.trans [where b = "2 ^ 32"])
  then have le: "loop_ends D"
    by (simp add: D_def)
  have fr: "frames_of D = fc"
    by (simp add: fc_def D_def)
  show ?thesis
  proof (cases "numberOfChannels buffer = 0 \<or> \<not> ctx (numberOfChannels buffer) fc (sampleRate buffer)")
    case True
    then show ?thesis
      using False fc
      by (simp add: slice_def Let_def sf ef d nle ul createBuffer_def fc_def [symmetric]
          del: le_zero.simps unsigned_long.simps js_minus.simps)
  next
    case ok: False
    define nb where "nb = \<lparr>sampleRate = sampleRate buffer, ab_length = fc,
        channels = replicate (numberOfChannels buffer) (replicate fc (F32 0))\<rparr>"
    have cb: "createBuffer ctx (numberOfChannels buffer) D (sampleRate buffer) = Inr nb"
      using ok fc by (simp add: createBuffer_def ul nb_def Let_def del: unsigned_long.simps)
    have "channels (copy_channels buffer sf fc 0 nb) =
          take 0 (channels nb) @
          map (\<lambda>cd. map (\<lambda>j. read_f32 cd (sf + int j)) [0..<fc]) (drop 0 (channels buffer))"
      by (rule copy_channels_channels) (simp_all add: nb_def list_all_length)
    then have "copy_channels buffer sf fc 0 nb =
          \<lparr>sampleRate = sampleRate buffer, ab_length = fc,
           channels = map (\<lambda>cd. map (\<lambda>j. read_f32 cd (sf + int j)) [0..<fc])
                        (channels buffer)\<rparr>"
      by (simp add: nb_def)
    then show ?thesis
      using False ok
      by (simp add: slice_def Let_def sf ef d nle cb le fr fc_def [symmetric]
          del: le_zero.simps loop_ends.simps frames_of.simps js_minus.simps)
  qed
qed

lemma read_in_range:
  "0 \<le> sf \<Longrightarrow> sf + int fc \<le> int (length cd) \<Longrightarrow>
   map (\<lambda>j. read_f32 cd (sf + int j)) [0..<fc] = take fc (drop (nat sf) cd)"
  by (rule nth_equalityI) (auto simp: read_f32_def nat_add_distrib)

lemma read_past_end:
  "0 \<le> sf \<Longrightarrow> sf \<le> int (length cd) \<Longrightarrow> int (length cd) \<le> sf + int fc \<Longrightarrow>
   map (\<lambda>j. read_f32 cd (sf + int j)) [0..<fc] =
     drop (nat sf) cd @ replicate (nat (sf + int fc) - length cd) NaN"
  by (rule nth_equalityI) (auto simp: read_f32_def nat_add_distrib nth_append)

section \<open>What the handlers compute\<close>

lemma is_transcript_transcript_params [simp]:
  "is_transcript (SingleRegion d rnd (transcript_params dark idx seg))"
  by (simp add: is_transcript_def SingleRegion_def transcript_params_def)

lemma plugin_duration_regionsPluginRef [simp]:
  "plugin_duration (s\<lparr>regionsPluginRef := x\<rparr>) = plugin_duration s"
  by (simp add: plugin_duration_def)

lemma remove_transcript_regions_eq:
  "remove_transcript_regions snap s =
     s\<lparr>regionsPluginRef :=
         map_option
           (\<lambda>p. p\<lparr>regions := fold (\<lambda>r rs. if is_transcript r then remove1 r rs else rs) snap
                                (regions p)\<rparr>)
           (regionsPluginRef s)\<rparr>"
proof (induction snap arbitrary: s)
  case Nil
  show ?case by (cases "regionsPluginRef s") simp_all
next
  case (Cons r snap)
  show ?case
    by (cases "regionsPluginRef s") (simp_all add: Cons.IH region_remove_def)
qed

lemma fold_remove_transcripts:
  "list_all (\<lambda>r. \<not> is_transcript r) ys \<Longrightarrow>
   fold (\<lambda>r rs. if is_transcript r then remove1 r rs else rs) xs (ys @ xs) =
     ys @ filter (\<lambda>r. \<not> is_transcript r) xs"
proof (induction xs arbitrary: ys)
  case Nil
  show ?case by simp
next
  case (Cons x xs)
  show ?case
  proof (cases "is_transcript x")
    case True
    with Cons.prems have "x \<notin> set ys"
      by (auto simp: list_all_iff)
    then have "remove1 x (ys @ x # xs) = ys @ xs"
      by (simp add: remove1_append)
    with True Cons.IH [OF Cons.prems] show ?thesis by simp
  next
    case False
    with Cons.prems have "list_all (\<lambda>r. \<not> is_transcript r) (ys @ [x])"
      by simp
    from Cons.IH [OF this] False show ?thesis by simp
  qed
qed

lemma plugin_addRegion_transcript:
  "plugin_addRegion rnd (transcript_params dark idx seg) s =
     s\<lparr>regionsPluginRef :=
         map_option
           (\<lambda>p. if plugin_duration s = 0
                then p\<lparr>waiting := waiting p @
                        [SingleRegion (plugin_duration s) rnd (transcript_params dark idx seg)]\<rparr>
                else p\<lparr>regions := regions p @
                        [SingleRegion (plugin_duration s) rnd (transcript_params dark idx seg)]\<rparr>)
           (regionsPluginRef s)\<rparr>"
  by (cases "regionsPluginRef s")
     (simp_all add: plugin_addRegion_def saveRegion_def on_region_created_def Let_def)

lemma add_transcript_regions_eq:
  "add_transcript_regions dark idx segments s =
     s\<lparr>regionsPluginRef :=
         map_option
           (\<lambda>p. if plugin_duration s = 0
                then p\<lparr>waiting := waiting p @
                        map (\<lambda>(k, seg). SingleRegion (plugin_duration s) []
                                          (transcript_params dark k seg))
                          (enumerate idx segments)\<rparr>
                else p\<lparr>regions := regions p @
                        map (\<lambda>(k, seg). SingleRegion (plugin_duration s) []
                                          (transcript_params dark k seg))
                          (enumerate idx segments)\<rparr>)
           (regionsPluginRef s)\<rparr>"
proof (induction segments arbitrary: idx s)
  case Nil
  show ?case by (cases "regionsPluginRef s") simp_all
next
  case (Cons seg segments)
  show ?case
    by (cases "regionsPluginRef s")
       (simp_all add: Cons.IH plugin_addRegion_transcript)
qed

lemma renderTranscriptRegions_eq:
  "renderTranscriptRegions r segments s =
     s\<lparr>regionsPluginRef :=
         map_option
           (\<lambda>p. if r_showTranscriptOnWave r
                then (if plugin_duration s = 0
                      then p\<lparr>regions := filter (\<lambda>x. \<not> is_transcript x) (regions p),
                             waiting := waiting p @
                               map (\<lambda>(idx, seg). SingleRegion (plugin_duration s) []
                                                   (transcript_params (r_isDarkMode r) idx seg))
                                 (enumerate 0 segments)\<rparr>
                      else p\<lparr>regions := filter (\<lambda>x. \<not> is_transcript x) (regions p) @
                               map (\<lambda>(idx, seg). SingleRegion (plugin_duration s) []
                                                   (transcript_params (r_isDarkMode r) idx seg))
                                 (enumerate 0 segments)\<rparr>)
                else p\<lparr>regions := filter (\<lambda>x. \<not> is_transcript x) (regions p)\<rparr>)
           (regionsPluginRef s)\<rparr>"
proof (cases "regionsPluginRef s")
  case None
  then show ?thesis by (simp add: renderTranscriptRegions_def)
next
  case (Some p)
  have "fold (\<lambda>r rs. if is_transcript r then remove1 r rs else rs) (regions p) ([] @ regions p) =
        [] @ filter (\<lambda>r. \<not> is_transcript r) (regions p)"
    by (rule fold_remove_transcripts) simp
  then show ?thesis
    using Some
    by (simp add: renderTranscriptRegions_def Let_def remove_transcript_regions_eq
        add_transcript_regions_eq)
qed

lemma user_part_render:
  "filter (\<lambda>r. \<not> is_transcript r) (getRegions (renderTranscriptRegions r segments s)) =
   filter (\<lambda>r. \<not> is_transcript r) (getRegions s)"
  by (cases "regionsPluginRef s")
     (simp_all add: renderTranscriptRegions_eq getRegions_def filter_map comp_def split_def)

lemma find_holds: "find P xs = Some x \<Longrightarrow> P x"
  by (induction xs) (auto split: if_splits)

lemma find_remove1:
  "find (\<lambda>r. region_id r = i) rs = Some region \<Longrightarrow>
   remove1 region rs =
     takeWhile (\<lambda>r. region_id r \<noteq> i) rs @ tl (dropWhile (\<lambda>r. region_id r \<noteq> i) rs)"
  by (induction rs) (auto split: if_splits dest: find_holds)

lemma formattedRegions_user_part:
  "filter (\<lambda>r. \<not> is_transcript r) rs' = filter (\<lambda>r. \<not> is_transcript r) rs \<Longrightarrow>
   formattedRegions rs' = formattedRegions rs"
  by (simp add: formattedRegions_def)

lemma filter_list_update_same:
  "k < length xs \<Longrightarrow> \<not> P (xs ! k) \<Longrightarrow> \<not> P y \<Longrightarrow> filter P (xs[k := y]) = filter P xs"
proof (induction xs arbitrary: k)
  case Nil
  then show ?case by simp
next
  case (Cons x xs)
  then show ?case by (cases k) simp_all
qed

text \<open>The stored clip list is the view of the plugin's regions: every handler keeps it so.\<close>

lemma getRegions_simps [simp]:
  "getRegions (s\<lparr>wavesurferRef := w\<rparr>) = getRegions s"
  "getRegions (s\<lparr>isReady := b\<rparr>) = getRegions s"
  "getRegions (s\<lparr>duration := d\<rparr>) = getRegions s"
  "getRegions (s\<lparr>userRegions := u\<rparr>) = getRegions s"
  "getRegions (s\<lparr>activeRegionId := a\<rparr>) = getRegions s"
  "getRegions (s\<lparr>isTranscribing := b\<rparr>) = getRegions s"
  "getRegions (s\<lparr>transcriptSegments := t\<rparr>) = getRegions s"
  "getRegions (s\<lparr>showTranscriptOnWave := b\<rparr>) = getRegions s"
  "getRegions (s\<lparr>isDarkMode := b\<rparr>) = getRegions s"
  "getRegions (s\<lparr>in_flight := n\<rparr>) = getRegions s"
  "getRegions (s\<lparr>upstream_calls := n\<rparr>) = getRegions s"
  "getRegions (s\<lparr>console_errors := c\<rparr>) = getRegions s"
  by (simp_all add: getRegions_def)

lemma saveRegion_list:
  assumes "userRegions s = formattedRegions (getRegions s)"
  shows "userRegions (saveRegion region s) = formattedRegions (getRegions (saveRegion region s))"
  using assms
  by (cases "regionsPluginRef s")
     (simp_all add: saveRegion_def on_region_created_def updateUserRegionsList_def
        getRegions_def formattedRegions_def)

lemma fold_saveRegion_list:
  "userRegions s = formattedRegions (getRegions s) \<Longrightarrow>
   userRegions (fold saveRegion rs s) = formattedRegions (getRegions (fold saveRegion rs s))"
  by (induction rs arbitrary: s) (simp_all add: saveRegion_list)

lemma plugin_addRegion_list:
  assumes "userRegions s = formattedRegions (getRegions s)"
  shows "userRegions (plugin_addRegion rnd params s) =
         formattedRegions (getRegions (plugin_addRegion rnd params s))"
proof (cases "regionsPluginRef s")
  case None
  with assms show ?thesis by (simp add: plugin_addRegion_def)
next
  case (Some p)
  show ?thesis
  proof (cases "plugin_duration s = 0")
    case True
    with assms Some show ?thesis
      by (simp add: plugin_addRegion_def Let_def getRegions_def)
  next
    case False
    with Some saveRegion_list [OF assms] show ?thesis
      by (simp add: plugin_addRegion_def Let_def)
  qed
qed

lemma renderTranscriptRegions_list:
  assumes "userRegions s = formattedRegions (getRegions s)"
  shows "userRegions (renderTranscriptRegions r segments s) =
         formattedRegions (getRegions (renderTranscriptRegions r segments s))"
proof -
  have "formattedRegions (getRegions (renderTranscriptRegions r segments s)) =
        formattedRegions (getRegions s)"
    by (rule formattedRegions_user_part) (rule user_part_render)
  with assms show ?thesis
    by (simp add: renderTranscriptRegions_eq)
qed

lemma step_list:
  assumes "userRegions s = formattedRegions (getRegions s)"
  shows "userRegions (step e s) = formattedRegions (getRegions (step e s))"
proof (cases e)
  case (Ready ws)
  define s1 where "s1 = on_ready (getDuration ws) (s\<lparr>wavesurferRef := Some ws\<rparr>)"
  have s1: "userRegions s1 = formattedRegions (getRegions s1)"
    using assms by (simp add: s1_def on_ready_def handleTranscribe_def Let_def)
  show ?thesis
  proof (cases "regionsPluginRef s1")
    case None
    with s1 Ready show ?thesis
      by (simp add: plugin_on_ready_def s1_def [symmetric])
  next
    case (Some p)
    have "userRegions (s1\<lparr>regionsPluginRef := Some (p\<lparr>waiting := []\<rparr>)\<rparr>) =
          formattedRegions (getRegions (s1\<lparr>regionsPluginRef := Some (p\<lparr>waiting := []\<rparr>)\<rparr>))"
      using s1 Some by (simp add: getRegions_def)
    from fold_saveRegion_list [OF this] Ready Some show ?thesis
      by (simp add: plugin_on_ready_def s1_def [symmetric])
  qed
next
  case (TimeUpdate t)
  with assms show ?thesis by simp
next
  case (AddRegion rnd)
  with assms plugin_addRegion_list [OF assms] show ?thesis
    by (simp add: addRegion_def Let_def split: option.splits)
next
  case (DragSelect rnd params)
  with plugin_addRegion_list [OF assms] show ?thesis by simp
next
  case (MoveRegion k start end_t)
  show ?thesis
  proof (cases "regionsPluginRef s")
    case None
    with assms MoveRegion show ?thesis
      by (simp add: plugin_moveRegion_def)
  next
    case (Some p)
    show ?thesis
    proof (cases "k < length (regions p)")
      case False
      with assms MoveRegion Some show ?thesis
        by (simp add: plugin_moveRegion_def)
    next
      case True
      define region where
        "region = (regions p ! k)\<lparr>region_start := start, region_end := end_t\<rparr>"
      have tr: "is_transcript region = is_transcript (regions p ! k)"
        by (simp add: region_def is_transcript_def)
      show ?thesis
      proof (cases "is_transcript region")
        case False
        with MoveRegion Some True show ?thesis
          by (simp add: plugin_moveRegion_def on_region_updated_def
              updateUserRegionsList_def getRegions_def region_def Let_def)
      next
        case t: True
        have "filter (\<lambda>r. \<not> is_transcript r) ((regions p)[k := region]) =
              filter (\<lambda>r. \<not> is_transcript r) (regions p)"
          using True t tr by (intro filter_list_update_same) simp_all
        then have "formattedRegions ((regions p)[k := region]) = formattedRegions (regions p)"
          by (rule formattedRegions_user_part)
        with assms MoveRegion Some True t show ?thesis
          by (simp add: plugin_moveRegion_def on_region_updated_def getRegions_def
              region_def Let_def)
      qed
    qed
  qed
next
  case (RemoveRegion i)
  then show ?thesis
    by (simp add: removeRegion_def updateUserRegionsList_def Let_def)
next
  case ToggleTranscript
  have "userRegions (s\<lparr>showTranscriptOnWave := \<not> showTranscriptOnWave s\<rparr>) =
        formattedRegions (getRegions (s\<lparr>showTranscriptOnWave := \<not> showTranscriptOnWave s\<rparr>))"
    using assms by simp
  from renderTranscriptRegions_list [OF this] ToggleTranscript show ?thesis
    by (simp add: toggleTranscript_def Let_def)
next
  case ToggleTheme
  have "userRegions (s\<lparr>isDarkMode := \<not> isDarkMode s\<rparr>) =
        formattedRegions (getRegions (s\<lparr>isDarkMode := \<not> isDarkMode s\<rparr>))"
    using assms by simp
  from renderTranscriptRegions_list [OF this] ToggleTheme show ?thesis
    by (simp add: toggleTheme_def Let_def)
next
  case (Settle out)
  show ?thesis
  proof (cases "in_flight s = 0")
    case True
    with assms Settle show ?thesis by simp
  next
    case False
    show ?thesis
    proof (cases out)
      case (Parsed parsed)
      have "userRegions (s\<lparr>upstream_calls := Suc (upstream_calls s),
                           transcriptSegments := parsed\<rparr>) =
            formattedRegions (getRegions (s\<lparr>upstream_calls := Suc (upstream_calls s),
                           transcriptSegments := parsed\<rparr>))"
        using assms by simp
      from renderTranscriptRegions_list [OF this] Settle False Parsed show ?thesis
        by (simp add: handleTranscribe_resume_def Let_def)
    qed (use assms Settle False in \<open>simp_all add: handleTranscribe_resume_def Let_def\<close>)
  qed
qed

lemma run_list:
  "userRegions s = formattedRegions (getRegions s) \<Longrightarrow>
   userRegions (fold step es s) = formattedRegions (getRegions (fold step es s))"
  by (induction es arbitrary: s) (simp_all add: step_list)

lemma length_wav_header [simp]: "length (wav_header nch sr dataLen) = 44"
  by (simp add: wav_header_def ascii_def u16le_def u32le_def)

lemma length_concat_const:
  "(\<And>x. x \<in> set xs \<Longrightarrow> length (f x) = c) \<Longrightarrow> length (concat (map f xs)) = length xs * c"
  by (induction xs) simp_all

lemma length_interleave:
  "length (interleave q b) = ab_length b * numberOfChannels b * 2"
proof -
  have "length (concat (map (\<lambda>cd. u16le (q (read_f32 cd (int j)))) (channels b))) =
        numberOfChannels b * 2" for j
    unfolding numberOfChannels_def
    by (rule length_concat_const) (simp add: u16le_def)
  then have "length (interleave q b) = length [0..<ab_length b] * (numberOfChannels b * 2)"
    unfolding interleave_def by (intro length_concat_const)
  then show ?thesis by simp
qed

lemma to_number_round:
  assumes "x \<noteq> 0" and "ilog2 x = k" and "- 1022 \<le> k"
      and "round_half_even (x / pow2 (k - 52)) = m"
      and "of_int m * pow2 (k - 52) = r" and "\<bar>r\<bar> < 2 ^ 53"
  shows "to_number x = Num r"
proof -
  have rd: "round_double x = r"
    using assms(1-5) by (simp add: round_double_def Let_def max_def)
  define B :: rat where "B = 2 ^ 1024"
  have "(2::rat) ^ 53 \<le> B"
    unfolding B_def by (rule power_increasing) simp_all
  with assms(6) have "\<not> B \<le> r" "\<not> r \<le> - B"
    by linarith+
  then show ?thesis
    unfolding to_number_def Let_def rd B_def [symmetric] by (simp only: if_False)
qed

text \<open>Some products and a sum, evaluated.\<close>

lemma frame_of_zero: "Math_floor (js_times 0 8000) = Num (of_int 0)"
  by (rule js_times_int) simp_all

lemma times_1_1024: "Math_floor (js_times (1 / 1024) 8000) = Num (of_int 7)"
proof -
  have i: "ilog2 (125 / 16) = 2"
    by code_simp
  have m: "round_half_even ((125 / 16) / pow2 (2 - 52)) = 8796093022208000"
    by code_simp
  have r: "of_int 8796093022208000 * pow2 (2 - 52) = 125 / 16"
    by code_simp
  have "to_number (125 / 16) = Num (125 / 16)"
    by (rule to_number_round [OF _ i _ m r]) simp_all
  moreover have "\<lfloor>125 / 16 :: rat\<rfloor> = 7"
    by code_simp
  ultimately show ?thesis
    by (simp add: js_times_def)
qed

lemma times_1_512: "Math_floor (js_times (1 / 512) 8000) = Num (of_int 15)"
proof -
  have i: "ilog2 (125 / 8) = 3"
    by code_simp
  have m: "round_half_even ((125 / 8) / pow2 (3 - 52)) = 8796093022208000"
    by code_simp
  have r: "of_int 8796093022208000 * pow2 (3 - 52) = 125 / 8"
    by code_simp
  have "to_number (125 / 8) = Num (125 / 8)"
    by (rule to_number_round [OF _ i _ m r]) simp_all
  moreover have "\<lfloor>125 / 8 :: rat\<rfloor> = 15"
    by code_simp
  ultimately show ?thesis
    by (simp add: js_times_def)
qed

text \<open>
  The double nearest to 0.001125 is \<open>5188146770730811 / 2\<^sup>6\<^sup>2\<close>. Its exact product with
  8000 is below 9; the double product is 9.
\<close>

lemma times_rounds_up:
  "5188146770730811 / 2 ^ 62 * 8000 < (9::rat)"
  "Math_floor (js_times (5188146770730811 / 2 ^ 62) 8000) = Num (of_int 9)"
proof -
  show "5188146770730811 / 2 ^ 62 * 8000 < (9::rat)"
    by simp
  have i: "ilog2 (5188146770730811 / 2 ^ 62 * 8000) = 3"
    by code_simp
  have m: "round_half_even ((5188146770730811 / 2 ^ 62 * 8000) / pow2 (3 - 52)) =
                 5066549580791808"
    by code_simp
  have r: "of_int 5066549580791808 * pow2 (3 - 52) = 9"
    by code_simp
  have "to_number (5188146770730811 / 2 ^ 62 * 8000) = Num 9"
    by (rule to_number_round [OF _ i _ m r]) simp_all
  then show "Math_floor (js_times (5188146770730811 / 2 ^ 62) 8000) = Num (of_int 9)"
    by (simp add: js_times_def)
qed

lemma plus_2_5: "js_plus 2 5 = Num 7"
  using to_number_int [of 7] by (simp add: js_plus_def)

section \<open>The PCM slicer\<close>

text \<open>
  Claim C4. Let the channels of the source all have the buffer's length. The slicer takes
  \<open>startFrame\<close> and \<open>endFrame\<close> as \<^verbatim>\<open>Math.floor(time * sampleRate)\<close>, the product being
  the double product. When both lie inside the source (start frame not negative, end
  frame not beyond the length) and \<open>endFrame - startFrame\<close> is positive, it creates a
  buffer with the source's sample rate and one channel per source channel (the audio
  context refusing the buffer is the one way in which this fails), and copies channel by
  channel the \<open>endFrame - startFrame\<close> consecutive source samples from \<open>startFrame\<close> on,
  unchanged. When \<open>endFrame - startFrame\<close> is not positive it returns early.
\<close>

theorem slice_in_range_verbatim:
  assumes wf: "list_all (\<lambda>cd. length cd = ab_length buffer) (channels buffer)"
      and len: "ab_length buffer < 2 ^ 32"
      and sf: "Math_floor (js_times start (of_nat (sampleRate buffer))) = Num (of_int startFrame)"
      and ef: "Math_floor (js_times end_t (of_nat (sampleRate buffer))) = Num (of_int endFrame)"
      and start: "0 \<le> startFrame"
      and endf: "endFrame \<le> int (ab_length buffer)"
  shows "slice ctx buffer start end_t =
     (if endFrame \<le> startFrame then Returns None
      else if numberOfChannels buffer = 0 \<or>
              \<not> ctx (numberOfChannels buffer) (nat (endFrame - startFrame)) (sampleRate buffer)
           then Throws NotSupportedError
           else Returns (Some \<lparr>sampleRate = sampleRate buffer,
                  ab_length = nat (endFrame - startFrame),
                  channels = map (\<lambda>cd. take (nat (endFrame - startFrame))
                                          (drop (nat startFrame) cd))
                               (channels buffer)\<rparr>))"
proof -
  have "int (ab_length buffer) < 2 ^ 32"
    using len by simp
  with start endf have small: "endFrame - startFrame < 2 ^ 32"
    by linarith
  have "map (\<lambda>j. read_f32 cd (startFrame + int j)) [0..<nat (endFrame - startFrame)] =
        take (nat (endFrame - startFrame)) (drop (nat startFrame) cd)"
    if "cd \<in> set (channels buffer)" and "\<not> endFrame \<le> startFrame" for cd
  proof -
    have "length cd = ab_length buffer"
      using wf that(1) by (simp add: list_all_iff)
    then have "startFrame + int (nat (endFrame - startFrame)) \<le> int (length cd)"
      using endf that(2) by simp
    from read_in_range [OF start this] show ?thesis .
  qed
  then show ?thesis
    by (simp add: slice_frames [OF sf ef small])
qed

theorem slice_in_range_verbatim_witness:
  "list_all (\<lambda>cd. length cd = (16::nat))
     [[F32 0, F32 1, F32 2, F32 3, F32 4, F32 5, F32 6, F32 7,
       F32 8, F32 9, F32 10, F32 11, F32 12, F32 13, F32 14, F32 15],
      [F32 20, F32 21, F32 22, F32 23, F32 24, F32 25, F32 26, F32 27,
       F32 28, F32 29, F32 30, F32 31, F32 32, F32 33, F32 34, F32 35]] \<and>
   Math_floor (js_times (5188146770730811 / 2 ^ 62) 8000) = Num (of_int 9) \<and>
   Math_floor (js_times (1 / 512) 8000) = Num (of_int 15) \<and>
   slice (\<lambda>n len sr. n \<le> 32 \<and> 8000 \<le> sr \<and> sr \<le> 96000)
     \<lparr>sampleRate = 8000, ab_length = 16, channels =
       [[F32 0, F32 1, F32 2, F32 3, F32 4, F32 5, F32 6, F32 7,
         F32 8, F32 9, F32 10, F32 11, F32 12, F32 13, F32 14, F32 15],
        [F32 20, F32 21, F32 22, F32 23, F32 24, F32 25, F32 26, F32 27,
         F32 28, F32 29, F32 30, F32 31, F32 32, F32 33, F32 34, F32 35]]\<rparr>
     (5188146770730811 / 2 ^ 62) (1 / 512) =
   Returns (Some \<lparr>sampleRate = 8000, ab_length = 6, channels =
       [[F32 9, F32 10, F32 11, F32 12, F32 13, F32 14],
        [F32 29, F32 30, F32 31, F32 32, F32 33, F32 34]]\<rparr>)"
  using slice_in_range_verbatim [where ctx = "\<lambda>n len sr. n \<le> 32 \<and> 8000 \<le> sr \<and> sr \<le> 96000"
      and buffer = "\<lparr>sampleRate = 8000, ab_length = 16, channels =
       [[F32 0, F32 1, F32 2, F32 3, F32 4, F32 5, F32 6, F32 7,
         F32 8, F32 9, F32 10, F32 11, F32 12, F32 13, F32 14, F32 15],
        [F32 20, F32 21, F32 22, F32 23, F32 24, F32 25, F32 26, F32 27,
         F32 28, F32 29, F32 30, F32 31, F32 32, F32 33, F32 34, F32 35]]\<rparr>"
      and start = "5188146770730811 / 2 ^ 62" and end_t = "1 / 512"
      and startFrame = 9 and endFrame = 15]
    times_rounds_up(2) times_1_512
  by (simp add: numberOfChannels_def)

text \<open>
  Claim C1, as amended. For a region that starts inside the source and whose end frame
  lies at or beyond the source length, the slicer does not clamp: the end frame stays
  \<^verbatim>\<open>Math.floor(end * sampleRate)\<close>, the new buffer has \<open>endFrame - startFrame\<close> frames,
  and each channel is the source from \<open>startFrame\<close> to its end followed by one NaN for
  every frame read past the end. The read past the end raises no error; the one error is
  that of an audio context that refuses the new buffer.
\<close>

theorem slice_past_end_unclamped:
  assumes wf: "list_all (\<lambda>cd. length cd = ab_length buffer) (channels buffer)"
      and sf: "Math_floor (js_times start (of_nat (sampleRate buffer))) = Num (of_int startFrame)"
      and ef: "Math_floor (js_times end_t (of_nat (sampleRate buffer))) = Num (of_int endFrame)"
      and start: "0 \<le> startFrame"
      and startf: "startFrame \<le> int (ab_length buffer)"
      and beyond: "int (ab_length buffer) \<le> endFrame"
      and small: "endFrame - startFrame < 2 ^ 32"
  shows "slice ctx buffer start end_t =
     (if endFrame \<le> startFrame then Returns None
      else if numberOfChannels buffer = 0 \<or>
              \<not> ctx (numberOfChannels buffer) (nat (endFrame - startFrame)) (sampleRate buffer)
           then Throws NotSupportedError
           else Returns (Some \<lparr>sampleRate = sampleRate buffer,
                  ab_length = nat (endFrame - startFrame),
                  channels = map (\<lambda>cd. drop (nat startFrame) cd @
                                         replicate (nat endFrame - ab_length buffer) NaN)
                               (channels buffer)\<rparr>))"
proof -
  have "map (\<lambda>j. read_f32 cd (startFrame + int j)) [0..<nat (endFrame - startFrame)] =
        drop (nat startFrame) cd @ replicate (nat endFrame - ab_length buffer) NaN"
    if "cd \<in> set (channels buffer)" and "\<not> endFrame \<le> startFrame" for cd
  proof -
    have l: "length cd = ab_length buffer"
      using wf that(1) by (simp add: list_all_iff)
    have "startFrame \<le> int (length cd)"
         "int (length cd) \<le> startFrame + int (nat (endFrame - startFrame))"
      using startf beyond that(2) l by simp_all
    from read_past_end [OF start this] show ?thesis
      using start that(2) l by simp
  qed
  then show ?thesis
    by (simp add: slice_frames [OF sf ef small])
qed

theorem slice_past_end_unclamped_witness:
  "list_all (\<lambda>cd. length cd = (4::nat)) [[F32 1, F32 2, F32 3, F32 4]] \<and>
   Math_floor (js_times 0 8000) = Num (of_int 0) \<and>
   Math_floor (js_times (1 / 1024) 8000) = Num (of_int 7) \<and>
   slice (\<lambda>n len sr. n \<le> 32 \<and> 8000 \<le> sr \<and> sr \<le> 96000)
     \<lparr>sampleRate = 8000, ab_length = 4, channels = [[F32 1, F32 2, F32 3, F32 4]]\<rparr>
     0 (1 / 1024) =
   Returns (Some \<lparr>sampleRate = 8000, ab_length = 7,
     channels = [[F32 1, F32 2, F32 3, F32 4] @ replicate 3 NaN]\<rparr>)"
  using slice_past_end_unclamped [where ctx = "\<lambda>n len sr. n \<le> 32 \<and> 8000 \<le> sr \<and> sr \<le> 96000"
      and buffer = "\<lparr>sampleRate = 8000, ab_length = 4,
                     channels = [[F32 1, F32 2, F32 3, F32 4]]\<rparr>"
      and start = 0 and end_t = "1 / 1024" and startFrame = 0 and endFrame = 7]
    frame_of_zero times_1_1024
  by (simp add: numberOfChannels_def)

text \<open>
  Claim C1 as stated fails: a one-channel source of four frames at 8000 Hz and the region
  from 0 s to 1/1024 s (frames 0 to 7) give seven frames, three of them read past the
  source, not the four frames up to the source end.
\<close>

theorem slice_clamp_counterexample:
  "slice (\<lambda>n len sr. n \<le> 32 \<and> 8000 \<le> sr \<and> sr \<le> 96000)
     \<lparr>sampleRate = 8000, ab_length = 4, channels = [[F32 1, F32 2, F32 3, F32 4]]\<rparr>
     0 (1 / 1024) =
   Returns (Some \<lparr>sampleRate = 8000, ab_length = 7,
     channels = [[F32 1, F32 2, F32 3, F32 4, NaN, NaN, NaN]]\<rparr>) \<and>
   slice (\<lambda>n len sr. n \<le> 32 \<and> 8000 \<le> sr \<and> sr \<le> 96000)
     \<lparr>sampleRate = 8000, ab_length = 4, channels = [[F32 1, F32 2, F32 3, F32 4]]\<rparr>
     0 (1 / 1024) \<noteq>
   Returns (Some \<lparr>sampleRate = 8000, ab_length = 4,
     channels = [[F32 1, F32 2, F32 3, F32 4]]\<rparr>)"
proof -
  have "slice (\<lambda>n len sr. n \<le> 32 \<and> 8000 \<le> sr \<and> sr \<le> 96000)
     \<lparr>sampleRate = 8000, ab_length = 4, channels = [[F32 1, F32 2, F32 3, F32 4]]\<rparr>
     0 (1 / 1024) =
   Returns (Some \<lparr>sampleRate = 8000, ab_length = 7,
     channels = [[F32 1, F32 2, F32 3, F32 4, NaN, NaN, NaN]]\<rparr>)"
    using slice_frames [where ctx = "\<lambda>n len sr. n \<le> 32 \<and> 8000 \<le> sr \<and> sr \<le> 96000"
      and buffer = "\<lparr>sampleRate = 8000, ab_length = 4,
                     channels = [[F32 1, F32 2, F32 3, F32 4]]\<rparr>"
      and start = 0 and end_t = "1 / 1024" and sf = 0 and ef = 7]
      frame_of_zero times_1_1024
    by (simp add: numberOfChannels_def read_f32_def upt_rec)
  then show ?thesis by simp
qed

lemma region_id_transcript [simp]:
  "region_id (SingleRegion d rnd (transcript_params dark idx seg)) =
     ''transcript-'' @ String_nat idx"
  by (simp add: SingleRegion_def transcript_params_def)

lemma transcript_ids:
  "map (\<lambda>(idx, seg). region_id (SingleRegion d rnd (transcript_params dark idx seg)))
     (enumerate n segments) =
   map (\<lambda>idx. ''transcript-'' @ String_nat idx) [n..<n + length segments]"
proof (induction segments arbitrary: n)
  case Nil
  show ?case by simp
next
  case (Cons seg segments)
  have "[n..<n + length (seg # segments)] = n # [Suc n..<Suc n + length segments]"
    by (subst upt_rec) simp
  with Cons.IH [of "Suc n"] show ?case
    by (simp del: upt_Suc)
qed

section \<open>The clip list and the transcript overlay\<close>

text \<open>
  Claim C3. The clip list that \<^verbatim>\<open>updateUserRegionsList\<close> stores is sorted ascending by
  start time, and for every start time the clips with that start time appear in the order
  in which the plugin holds them, which is the order of their creation. In particular two
  clips A and B with the same start, created in this order, are listed as A, B. After any
  sequence of session events the stored clip list is this view of the regions that the
  plugin holds at that moment.
\<close>

theorem userRegions_sorted_stable:
  "sorted (map data_start (userRegions (updateUserRegionsList wsRegions s))) \<and>
   filter (\<lambda>d. data_start d = t) (userRegions (updateUserRegionsList wsRegions s)) =
     map to_RegionData
       (filter (\<lambda>r. region_start r = t) (filter (\<lambda>r. \<not> is_transcript r) wsRegions)) \<and>
   (\<not> is_transcript a \<and> \<not> is_transcript b \<and> region_start a = region_start b \<longrightarrow>
      userRegions (updateUserRegionsList [a, b] s) = [to_RegionData a, to_RegionData b]) \<and>
   userRegions (fold step es (mounted ws dark enable key)) =
     formattedRegions (getRegions (fold step es (mounted ws dark enable key)))"
proof (intro conjI impI)
  have "map data_start (formattedRegions wsRegions) =
        map region_start (sort_key region_start (filter (\<lambda>r. \<not> is_transcript r) wsRegions))"
    by (simp add: formattedRegions_def to_RegionData_def comp_def)
  then show "sorted (map data_start (userRegions (updateUserRegionsList wsRegions s)))"
    by (simp add: updateUserRegionsList_def)
next
  have "filter (\<lambda>d. data_start d = t) (formattedRegions wsRegions) =
        map to_RegionData (filter (\<lambda>r. region_start r = t)
          (sort_key region_start (filter (\<lambda>r. \<not> is_transcript r) wsRegions)))"
    by (simp add: formattedRegions_def filter_map comp_def to_RegionData_def)
  then show "filter (\<lambda>d. data_start d = t) (userRegions (updateUserRegionsList wsRegions s)) =
     map to_RegionData
       (filter (\<lambda>r. region_start r = t) (filter (\<lambda>r. \<not> is_transcript r) wsRegions))"
    by (simp add: updateUserRegionsList_def sort_key_stable)
next
  assume "\<not> is_transcript a \<and> \<not> is_transcript b \<and> region_start a = region_start b"
  then show "userRegions (updateUserRegionsList [a, b] s) = [to_RegionData a, to_RegionData b]"
    by (simp add: updateUserRegionsList_def formattedRegions_def)
next
  show "userRegions (fold step es (mounted ws dark enable key)) =
     formattedRegions (getRegions (fold step es (mounted ws dark enable key)))"
    by (rule run_list) (simp add: mounted_def getRegions_def formattedRegions_def)
qed

theorem userRegions_sorted_stable_witness:
  "\<not> is_transcript \<lparr>region_id = ''region-A'', region_start = 3, region_end = 4,
       region_color = ''c'', region_drag = True, region_resize = True,
       region_content = ClipLabel\<rparr> \<and>
   \<not> is_transcript \<lparr>region_id = ''region-B'', region_start = 3, region_end = 9,
       region_color = ''c'', region_drag = True, region_resize = True,
       region_content = ClipLabel\<rparr> \<and>
   map data_id (userRegions (updateUserRegionsList
     [\<lparr>region_id = ''region-A'', region_start = 3, region_end = 4,
       region_color = ''c'', region_drag = True, region_resize = True,
       region_content = ClipLabel\<rparr>,
      \<lparr>region_id = ''region-B'', region_start = 3, region_end = 9,
       region_color = ''c'', region_drag = True, region_resize = True,
       region_content = ClipLabel\<rparr>]
     (mounted \<lparr>getCurrentTime = 0, getDuration = 0, getDecodedData = None\<rparr>
        False False None))) = [''region-A'', ''region-B'']"
  using userRegions_sorted_stable [where a =
     "\<lparr>region_id = ''region-A'', region_start = 3, region_end = 4,
       region_color = ''c'', region_drag = True, region_resize = True,
       region_content = ClipLabel\<rparr>"
     and b = "\<lparr>region_id = ''region-B'', region_start = 3, region_end = 9,
       region_color = ''c'', region_drag = True, region_resize = True,
       region_content = ClipLabel\<rparr>"
     and s = "mounted \<lparr>getCurrentTime = 0, getDuration = 0, getDecodedData = None\<rparr>
                False False None"]
  by (simp add: is_transcript_def to_RegionData_def)

text \<open>
  Claim C2, as amended. \<^verbatim>\<open>renderTranscriptRegions\<close> removes every region whose id starts
  with \<^verbatim>\<open>transcript-\<close> and, when the overlay is shown, passes one region to the plugin
  for every input segment, also for a segment with \<open>end \<le> start\<close>; the region of the
  segment at index \<open>idx\<close> has the id \<^verbatim>\<open>transcript-\<close> followed by \<open>idx\<close>, and the plugin
  adds it with its bounds clamped into the duration (or, while the waveform has no
  duration, keeps it for \<^verbatim>\<open>ready\<close>). When the overlay is hidden it adds none.
\<close>

theorem renderTranscriptRegions_every_segment:
  "regionsPluginRef (renderTranscriptRegions r segments s) =
     map_option
       (\<lambda>p. if r_showTranscriptOnWave r
            then (if plugin_duration s = 0
                  then p\<lparr>regions := filter (\<lambda>x. \<not> is_transcript x) (regions p),
                         waiting := waiting p @
                           map (\<lambda>(idx, seg). SingleRegion (plugin_duration s) []
                                               (transcript_params (r_isDarkMode r) idx seg))
                             (enumerate 0 segments)\<rparr>
                  else p\<lparr>regions := filter (\<lambda>x. \<not> is_transcript x) (regions p) @
                           map (\<lambda>(idx, seg). SingleRegion (plugin_duration s) []
                                               (transcript_params (r_isDarkMode r) idx seg))
                             (enumerate 0 segments)\<rparr>)
            else p\<lparr>regions := filter (\<lambda>x. \<not> is_transcript x) (regions p)\<rparr>)
       (regionsPluginRef s) \<and>
   map region_id
     (map (\<lambda>(idx, seg). SingleRegion (plugin_duration s) []
                         (transcript_params (r_isDarkMode r) idx seg))
        (enumerate 0 segments)) =
     map (\<lambda>idx. ''transcript-'' @ String_nat idx) [0..<length segments]"
proof
  show "regionsPluginRef (renderTranscriptRegions r segments s) =
     map_option
       (\<lambda>p. if r_showTranscriptOnWave r
            then (if plugin_duration s = 0
                  then p\<lparr>regions := filter (\<lambda>x. \<not> is_transcript x) (regions p),
                         waiting := waiting p @
                           map (\<lambda>(idx, seg). SingleRegion (plugin_duration s) []
                                               (transcript_params (r_isDarkMode r) idx seg))
                             (enumerate 0 segments)\<rparr>
                  else p\<lparr>regions := filter (\<lambda>x. \<not> is_transcript x) (regions p) @
                           map (\<lambda>(idx, seg). SingleRegion (plugin_duration s) []
                                               (transcript_params (r_isDarkMode r) idx seg))
                             (enumerate 0 segments)\<rparr>)
            else p\<lparr>regions := filter (\<lambda>x. \<not> is_transcript x) (regions p)\<rparr>)
       (regionsPluginRef s)"
    by (simp add: renderTranscriptRegions_eq)
  show "map region_id
     (map (\<lambda>(idx, seg). SingleRegion (plugin_duration s) []
                         (transcript_params (r_isDarkMode r) idx seg))
        (enumerate 0 segments)) =
     map (\<lambda>idx. ''transcript-'' @ String_nat idx) [0..<length segments]"
    using transcript_ids [of "plugin_duration s" "[]" "r_isDarkMode r" 0 segments]
    by (simp add: comp_def split_def del: region_id_transcript)
qed

text \<open>
  Claim C2 as stated fails: in a session with an API key and transcription enabled, whose
  waveform loads with a duration of 3 s, the transcription that \<^verbatim>\<open>ready\<close> starts
  delivers the segments \<open>(1, 1, x)\<close> and \<open>(2, 3, y)\<close>; rendering them leaves two
  transcript regions, \<^verbatim>\<open>transcript-0\<close> and \<^verbatim>\<open>transcript-1\<close>, not \<^verbatim>\<open>transcript-1\<close>
  alone.
\<close>

theorem dropped_segment_counterexample:
  "map region_id (filter is_transcript (getRegions
     (fold step [Ready \<lparr>getCurrentTime = 0, getDuration = 3, getDecodedData = None\<rparr>,
                 Settle (Parsed [\<lparr>seg_start = 1, seg_end = 1, seg_text = ''x''\<rparr>,
                                 \<lparr>seg_start = 2, seg_end = 3, seg_text = ''y''\<rparr>])]
        (mounted \<lparr>getCurrentTime = 0, getDuration = 0, getDecodedData = None\<rparr>
           False True (Some ''key''))))) =
     [''transcript-0'', ''transcript-1''] \<and>
   map region_id (filter is_transcript (getRegions
     (fold step [Ready \<lparr>getCurrentTime = 0, getDuration = 3, getDecodedData = None\<rparr>,
                 Settle (Parsed [\<lparr>seg_start = 1, seg_end = 1, seg_text = ''x''\<rparr>,
                                 \<lparr>seg_start = 2, seg_end = 3, seg_text = ''y''\<rparr>])]
        (mounted \<lparr>getCurrentTime = 0, getDuration = 0, getDecodedData = None\<rparr>
           False True (Some ''key''))))) \<noteq>
     [''transcript-1'']"
  by (simp add: mounted_def on_ready_def plugin_on_ready_def handleTranscribe_def
      handleTranscribe_resume_def no_api_key_def renderTranscriptRegions_eq getRegions_def
      is_transcript_def SingleRegion_def transcript_params_def plugin_duration_def
      String_nat.simps Let_def)

text \<open>
  Claim C6. \<^verbatim>\<open>renderTranscriptRegions\<close> leaves the user regions as they are: the regions
  whose id does not start with \<^verbatim>\<open>transcript-\<close> are the same before and after, in the same
  order, and the clip list and the active region are untouched.
\<close>

theorem renderTranscriptRegions_keeps_user_regions:
  "filter (\<lambda>x. \<not> is_transcript x) (getRegions (renderTranscriptRegions r segments s)) =
     filter (\<lambda>x. \<not> is_transcript x) (getRegions s) \<and>
   userRegions (renderTranscriptRegions r segments s) = userRegions s \<and>
   activeRegionId (renderTranscriptRegions r segments s) = activeRegionId s"
  by (cases "regionsPluginRef s")
     (simp_all add: renderTranscriptRegions_eq getRegions_def filter_map comp_def
        split_def)

lemma clampPosition_le: "clampPosition d x \<le> max 0 d"
  by (cases x) simp_all

section \<open>Adding and removing clips\<close>

text \<open>
  Claim C7, as amended. \<^verbatim>\<open>removeRegion\<close> raises no error. For an id that no region has,
  it leaves the regions, the active region and every other part of the state as they are
  and only recomputes the clip list. For an id that some region has, it removes the first
  region with that id, keeps the others in their order, and recomputes the clip list from
  what remains.
\<close>

theorem removeRegion_silent:
  "(i \<notin> set (map region_id (getRegions s)) \<longrightarrow>
      removeRegion i s = s\<lparr>userRegions := formattedRegions (getRegions s)\<rparr>) \<and>
   (i \<in> set (map region_id (getRegions s)) \<longrightarrow>
      getRegions (removeRegion i s) =
        takeWhile (\<lambda>r. region_id r \<noteq> i) (getRegions s) @
        tl (dropWhile (\<lambda>r. region_id r \<noteq> i) (getRegions s)) \<and>
      userRegions (removeRegion i s) = formattedRegions (getRegions (removeRegion i s)))"
proof (intro conjI impI)
  assume "i \<notin> set (map region_id (getRegions s))"
  then have "find (\<lambda>r. region_id r = i) (getRegions s) = None"
    by (auto simp: find_None_iff)
  then show "removeRegion i s = s\<lparr>userRegions := formattedRegions (getRegions s)\<rparr>"
    by (cases "regionsPluginRef s")
       (simp_all add: removeRegion_def getRegions_def updateUserRegionsList_def)
next
  assume "i \<in> set (map region_id (getRegions s))"
  then obtain region where f: "find (\<lambda>r. region_id r = i) (getRegions s) = Some region"
    by (cases "find (\<lambda>r. region_id r = i) (getRegions s)") (auto simp: find_None_iff)
  then obtain p where p: "regionsPluginRef s = Some p"
    by (cases "regionsPluginRef s") (simp_all add: getRegions_def)
  with f have f': "find (\<lambda>r. region_id r = i) (regions p) = Some region"
    by (simp add: getRegions_def)
  have "getRegions (removeRegion i s) = remove1 region (regions p)"
    using p f'
    by (simp add: removeRegion_def getRegions_def updateUserRegionsList_def region_remove_def)
  with find_remove1 [OF f'] p
  show "getRegions (removeRegion i s) =
        takeWhile (\<lambda>r. region_id r \<noteq> i) (getRegions s) @
        tl (dropWhile (\<lambda>r. region_id r \<noteq> i) (getRegions s))"
    by (simp add: getRegions_def)
  show "userRegions (removeRegion i s) = formattedRegions (getRegions (removeRegion i s))"
    by (simp add: removeRegion_def Let_def updateUserRegionsList_def)
qed

text \<open>
  A session for the examples: the waveform loads with a duration of 3 s, the playback
  position is at 2 s, and the user adds a clip, which the plugin names \<^verbatim>\<open>region-a\<close>.
  The clip is the active one and runs from 2 s to the end of the waveform at 3 s.
\<close>

lemma one_clip_session:
  "fold step [Ready \<lparr>getCurrentTime = 2, getDuration = 3, getDecodedData = None\<rparr>,
              AddRegion ''a'']
     (mounted \<lparr>getCurrentTime = 0, getDuration = 0, getDecodedData = None\<rparr> False False None) =
   (mounted \<lparr>getCurrentTime = 2, getDuration = 3, getDecodedData = None\<rparr> False False None)
     \<lparr>isReady := True, duration := 3,
      regionsPluginRef := Some \<lparr>regions =
        [\<lparr>region_id = ''region-a'', region_start = 2, region_end = 3,
          region_color = ''rgba(99, 102, 241, 0.3)'', region_drag = True,
          region_resize = True, region_content = ClipLabel\<rparr>], waiting = []\<rparr>,
      activeRegionId := Some ''region-a'',
      userRegions :=
        [\<lparr>data_id = ''region-a'', data_start = 2, data_end = 3, data_label = None,
          data_color = Some ''rgba(99, 102, 241, 0.3)''\<rparr>]\<rparr>"
  by (simp add: mounted_def on_ready_def plugin_on_ready_def addRegion_def
      plugin_addRegion_def plugin_duration_def SingleRegion_def saveRegion_def
      on_region_created_def is_transcript_def updateUserRegionsList_def getRegions_def
      formattedRegions_def to_RegionData_def plus_2_5 Let_def)

theorem removeRegion_silent_witness:
  "''region-zz'' \<notin> set (map region_id (getRegions
     (fold step [Ready \<lparr>getCurrentTime = 2, getDuration = 3, getDecodedData = None\<rparr>,
                 AddRegion ''a'']
        (mounted \<lparr>getCurrentTime = 0, getDuration = 0, getDecodedData = None\<rparr>
           False False None)))) \<and>
   getRegions (removeRegion ''region-zz''
     (fold step [Ready \<lparr>getCurrentTime = 2, getDuration = 3, getDecodedData = None\<rparr>,
                 AddRegion ''a'']
        (mounted \<lparr>getCurrentTime = 0, getDuration = 0, getDecodedData = None\<rparr>
           False False None))) =
     getRegions
     (fold step [Ready \<lparr>getCurrentTime = 2, getDuration = 3, getDecodedData = None\<rparr>,
                 AddRegion ''a'']
        (mounted \<lparr>getCurrentTime = 0, getDuration = 0, getDecodedData = None\<rparr>
           False False None)) \<and>
   ''region-a'' \<in> set (map region_id (getRegions
     (fold step [Ready \<lparr>getCurrentTime = 2, getDuration = 3, getDecodedData = None\<rparr>,
                 AddRegion ''a'']
        (mounted \<lparr>getCurrentTime = 0, getDuration = 0, getDecodedData = None\<rparr>
           False False None)))) \<and>
   getRegions (removeRegion ''region-a''
     (fold step [Ready \<lparr>getCurrentTime = 2, getDuration = 3, getDecodedData = None\<rparr>,
                 AddRegion ''a'']
        (mounted \<lparr>getCurrentTime = 0, getDuration = 0, getDecodedData = None\<rparr>
           False False None))) = []"
  unfolding one_clip_session
  using removeRegion_silent [where i = "''region-zz''" and s =
      "(mounted \<lparr>getCurrentTime = 2, getDuration = 3, getDecodedData = None\<rparr> False False None)
     \<lparr>isReady := True, duration := 3,
      regionsPluginRef := Some \<lparr>regions =
        [\<lparr>region_id = ''region-a'', region_start = 2, region_end = 3,
          region_color = ''rgba(99, 102, 241, 0.3)'', region_drag = True,
          region_resize = True, region_content = ClipLabel\<rparr>], waiting = []\<rparr>,
      activeRegionId := Some ''region-a'',
      userRegions :=
        [\<lparr>data_id = ''region-a'', data_start = 2, data_end = 3, data_label = None,
          data_color = Some ''rgba(99, 102, 241, 0.3)''\<rparr>]\<rparr>"]
    removeRegion_silent [where i = "''region-a''" and s =
      "(mounted \<lparr>getCurrentTime = 2, getDuration = 3, getDecodedData = None\<rparr> False False None)
     \<lparr>isReady := True, duration := 3,
      regionsPluginRef := Some \<lparr>regions =
        [\<lparr>region_id = ''region-a'', region_start = 2, region_end = 3,
          region_color = ''rgba(99, 102, 241, 0.3)'', region_drag = True,
          region_resize = True, region_content = ClipLabel\<rparr>], waiting = []\<rparr>,
      activeRegionId := Some ''region-a'',
      userRegions :=
        [\<lparr>data_id = ''region-a'', data_start = 2, data_end = 3, data_label = None,
          data_color = Some ''rgba(99, 102, 241, 0.3)''\<rparr>]\<rparr>"]
  by (simp add: getRegions_def)

text \<open>
  Claim C7 as stated fails: no error is raised for an absent id (the call returns, and
  the state is as before), and removing the active clip leaves \<^verbatim>\<open>activeRegionId\<close> set to
  the removed id.
\<close>

theorem removeRegion_counterexample:
  "activeRegionId
     (fold step [Ready \<lparr>getCurrentTime = 2, getDuration = 3, getDecodedData = None\<rparr>,
                 AddRegion ''a'']
        (mounted \<lparr>getCurrentTime = 0, getDuration = 0, getDecodedData = None\<rparr>
           False False None)) = Some ''region-a'' \<and>
   getRegions (removeRegion ''region-a''
     (fold step [Ready \<lparr>getCurrentTime = 2, getDuration = 3, getDecodedData = None\<rparr>,
                 AddRegion ''a'']
        (mounted \<lparr>getCurrentTime = 0, getDuration = 0, getDecodedData = None\<rparr>
           False False None))) = [] \<and>
   activeRegionId (removeRegion ''region-a''
     (fold step [Ready \<lparr>getCurrentTime = 2, getDuration = 3, getDecodedData = None\<rparr>,
                 AddRegion ''a'']
        (mounted \<lparr>getCurrentTime = 0, getDuration = 0, getDecodedData = None\<rparr>
           False False None))) = Some ''region-a'' \<and>
   removeRegion ''region-zz''
     (fold step [Ready \<lparr>getCurrentTime = 2, getDuration = 3, getDecodedData = None\<rparr>,
                 AddRegion ''a'']
        (mounted \<lparr>getCurrentTime = 0, getDuration = 0, getDecodedData = None\<rparr>
           False False None)) =
     fold step [Ready \<lparr>getCurrentTime = 2, getDuration = 3, getDecodedData = None\<rparr>,
                 AddRegion ''a'']
        (mounted \<lparr>getCurrentTime = 0, getDuration = 0, getDecodedData = None\<rparr>
           False False None)"
  unfolding one_clip_session
  by (simp add: removeRegion_def region_remove_def mounted_def is_transcript_def
      getRegions_def updateUserRegionsList_def formattedRegions_def to_RegionData_def)

text \<open>
  Claim C9, as amended. In a session whose waveform and plugin exist and whose waveform
  has a duration, \<^verbatim>\<open>addRegion\<close> applies no bounds of its own: it passes the current
  playback position as the start and that position plus 5 as the end, with drag and resize
  enabled. The plugin clamps both into the duration, so the user region that is created
  ends five seconds after its start only where that is inside the waveform, and at the
  end of the waveform otherwise. The region becomes the active one and the clip list is
  recomputed.
\<close>

theorem addRegion_clamped:
  assumes "regionsPluginRef s = Some p" and "wavesurferRef s = Some ws"
      and "getDuration ws \<noteq> 0"
  shows "getRegions (addRegion rnd s) =
           regions p @ [\<lparr>region_id = ''region-'' @ rnd,
                  region_start = clampPosition (getDuration ws) (Num (getCurrentTime ws)),
                  region_end = clampPosition (getDuration ws) (js_plus (getCurrentTime ws) 5),
                  region_color = ''rgba(99, 102, 241, 0.3)'',
                  region_drag = True, region_resize = True,
                  region_content = ClipLabel\<rparr>] \<and>
         region_end (last (getRegions (addRegion rnd s))) \<le> max 0 (getDuration ws) \<and>
         \<not> is_transcript (last (getRegions (addRegion rnd s))) \<and>
         userRegions (addRegion rnd s) = formattedRegions (getRegions (addRegion rnd s)) \<and>
         activeRegionId (addRegion rnd s) = Some (''region-'' @ rnd)"
  using assms clampPosition_le [of "getDuration ws" "js_plus (getCurrentTime ws) 5"]
  by (simp add: addRegion_def plugin_addRegion_def plugin_duration_def SingleRegion_def
      saveRegion_def on_region_created_def is_transcript_def getRegions_def
      updateUserRegionsList_def Let_def del: clampPosition.simps)

lemma ready_session:
  "fold step [Ready \<lparr>getCurrentTime = 2, getDuration = 3, getDecodedData = None\<rparr>]
     (mounted \<lparr>getCurrentTime = 0, getDuration = 0, getDecodedData = None\<rparr> False False None) =
   (mounted \<lparr>getCurrentTime = 2, getDuration = 3, getDecodedData = None\<rparr> False False None)
     \<lparr>isReady := True, duration := 3\<rparr>"
  by (simp add: mounted_def on_ready_def plugin_on_ready_def Let_def)

theorem addRegion_clamped_witness:
  "regionsPluginRef
     (fold step [Ready \<lparr>getCurrentTime = 2, getDuration = 3, getDecodedData = None\<rparr>]
        (mounted \<lparr>getCurrentTime = 0, getDuration = 0, getDecodedData = None\<rparr>
           False False None)) = Some \<lparr>regions = [], waiting = []\<rparr> \<and>
   wavesurferRef
     (fold step [Ready \<lparr>getCurrentTime = 2, getDuration = 3, getDecodedData = None\<rparr>]
        (mounted \<lparr>getCurrentTime = 0, getDuration = 0, getDecodedData = None\<rparr>
           False False None)) =
     Some \<lparr>getCurrentTime = 2, getDuration = 3, getDecodedData = None\<rparr> \<and>
   map region_end (getRegions (addRegion ''a''
     (fold step [Ready \<lparr>getCurrentTime = 2, getDuration = 3, getDecodedData = None\<rparr>]
        (mounted \<lparr>getCurrentTime = 0, getDuration = 0, getDecodedData = None\<rparr>
           False False None)))) = [3]"
proof -
  have p: "regionsPluginRef
     ((mounted \<lparr>getCurrentTime = 2, getDuration = 3, getDecodedData = None\<rparr> False False None)
        \<lparr>isReady := True, duration := 3\<rparr>) = Some \<lparr>regions = [], waiting = []\<rparr>"
    and w: "wavesurferRef
     ((mounted \<lparr>getCurrentTime = 2, getDuration = 3, getDecodedData = None\<rparr> False False None)
        \<lparr>isReady := True, duration := 3\<rparr>) =
      Some \<lparr>getCurrentTime = 2, getDuration = 3, getDecodedData = None\<rparr>"
    by (simp_all add: mounted_def)
  have d: "getDuration \<lparr>getCurrentTime = 2, getDuration = 3, getDecodedData = None\<rparr> \<noteq> 0"
    by simp
  from addRegion_clamped [OF p w d, of "''a''"] p w show ?thesis
    unfolding ready_session by (simp add: plus_2_5)
qed

text \<open>
  Claim C9 as stated fails: with the playback position at 2 s in a waveform of 3 s, the
  sum \<^verbatim>\<open>currentTime + 5\<close> is 7, and the region that is created runs from 2 s to 3 s.
\<close>

theorem addRegion_counterexample:
  "js_plus 2 5 = Num 7 \<and>
   map region_start (getRegions
     (fold step [Ready \<lparr>getCurrentTime = 2, getDuration = 3, getDecodedData = None\<rparr>,
                 AddRegion ''a'']
        (mounted \<lparr>getCurrentTime = 0, getDuration = 0, getDecodedData = None\<rparr>
           False False None))) = [2] \<and>
   map region_end (getRegions
     (fold step [Ready \<lparr>getCurrentTime = 2, getDuration = 3, getDecodedData = None\<rparr>,
                 AddRegion ''a'']
        (mounted \<lparr>getCurrentTime = 0, getDuration = 0, getDecodedData = None\<rparr>
           False False None))) = [3]"
  unfolding one_clip_session by (simp add: plus_2_5 getRegions_def)

section \<open>Transcription\<close>


text \<open>
  Claim C10. Without an API key \<^verbatim>\<open>handleTranscribe\<close>, of whichever render, returns the
  state it was given, and the \<^verbatim>\<open>ready\<close> handler only records readiness and the duration:
  no run is started, so no upstream call follows, the flag stays as it was, the transcript
  state is untouched and nothing is logged.
\<close>

theorem handleTranscribe_no_key:
  "no_api_key s \<Longrightarrow>
   handleTranscribe r s = s \<and> on_ready d s = s\<lparr>isReady := True, duration := d\<rparr>"
  by (simp add: handleTranscribe_def on_ready_def no_api_key_def Let_def)

theorem handleTranscribe_no_key_witness:
  "no_api_key (mounted \<lparr>getCurrentTime = 0, getDuration = 0, getDecodedData = None\<rparr>
                 False True None) \<and>
   handleTranscribe
     (mount_render (mounted \<lparr>getCurrentTime = 0, getDuration = 0, getDecodedData = None\<rparr>
                      False True None))
     (mounted \<lparr>getCurrentTime = 0, getDuration = 0, getDecodedData = None\<rparr> False True None) =
     mounted \<lparr>getCurrentTime = 0, getDuration = 0, getDecodedData = None\<rparr> False True None \<and>
   on_ready 3
     (mounted \<lparr>getCurrentTime = 0, getDuration = 0, getDecodedData = None\<rparr> False True None) =
     (mounted \<lparr>getCurrentTime = 0, getDuration = 0, getDecodedData = None\<rparr> False True None)
       \<lparr>isReady := True, duration := 3\<rparr>"
proof -
  have k: "no_api_key (mounted \<lparr>getCurrentTime = 0, getDuration = 0, getDecodedData = None\<rparr>
                         False True None)"
    by (simp add: no_api_key_def mounted_def)
  from handleTranscribe_no_key [OF k, of _ 3] k show ?thesis
    by simp
qed

section \<open>The exported WAV file\<close>

text \<open>
  Claim C5. The encoder is a function of the buffer alone (its samples, sample rate and
  channels): a header of 44 bytes followed by \<open>frameCount * channelCount * 2\<close> bytes of
  samples. Exporting the region from 2 s to 5 s of a 44100 Hz source gives
  \<open>3 * 44100 * channelCount * 2\<close> bytes of samples after the header (an audio context
  that refuses a buffer of the source's channel count and rate gives no file at all).
\<close>

theorem audioBufferToWav_size:
  "length (audioBufferToWav q b) = 44 + ab_length b * numberOfChannels b * 2 \<and>
   take 44 (audioBufferToWav q b) =
     wav_header (numberOfChannels b) (sampleRate b) (ab_length b * numberOfChannels b * 2) \<and>
   (wavesurferRef s = Some ws \<and> getDecodedData ws = Some buffer \<and>
    sampleRate buffer = 44100 \<and>
    find (\<lambda>r. region_id r = i) (getRegions s) = Some region \<and>
    region_start region = 2 \<and> region_end region = 5 \<longrightarrow>
    (if numberOfChannels buffer = 0 \<or> \<not> ctx (numberOfChannels buffer) 132300 44100
     then exportRegion ctx q i s = Throws NotSupportedError
     else (\<exists>wav. exportRegion ctx q i s = Returns (Some wav) \<and>
                 length wav = 44 + 3 * 44100 * numberOfChannels buffer * 2)))"
proof (intro conjI impI)
  show "length (audioBufferToWav q b) = 44 + ab_length b * numberOfChannels b * 2"
    by (simp add: audioBufferToWav_def length_interleave)
  show "take 44 (audioBufferToWav q b) =
     wav_header (numberOfChannels b) (sampleRate b) (ab_length b * numberOfChannels b * 2)"
    by (simp add: audioBufferToWav_def)
next
  assume a: "wavesurferRef s = Some ws \<and> getDecodedData ws = Some buffer \<and>
    sampleRate buffer = 44100 \<and>
    find (\<lambda>r. region_id r = i) (getRegions s) = Some region \<and>
    region_start region = 2 \<and> region_end region = 5"
  define nb where "nb = \<lparr>sampleRate = 44100, ab_length = 132300,
      channels = map (\<lambda>cd. map (\<lambda>j. read_f32 cd (88200 + int j)) [0..<132300])
                   (channels buffer)\<rparr>"
  have sf: "Math_floor (js_times 2 (of_nat (sampleRate buffer))) = Num (of_int 88200)"
    by (rule js_times_int) (simp_all add: a)
  have ef: "Math_floor (js_times 5 (of_nat (sampleRate buffer))) = Num (of_int 220500)"
    by (rule js_times_int) (simp_all add: a)
  have sl: "slice ctx buffer 2 5 =
      (if numberOfChannels buffer = 0 \<or> \<not> ctx (numberOfChannels buffer) 132300 44100
       then Throws NotSupportedError else Returns (Some nb))"
    using slice_frames [OF sf ef, of ctx] a by (simp add: nb_def)
  have len: "length (audioBufferToWav q nb) = 44 + 132300 * numberOfChannels buffer * 2"
    by (simp add: audioBufferToWav_def length_interleave) (simp add: nb_def numberOfChannels_def)
  show "if numberOfChannels buffer = 0 \<or> \<not> ctx (numberOfChannels buffer) 132300 44100
     then exportRegion ctx q i s = Throws NotSupportedError
     else (\<exists>wav. exportRegion ctx q i s = Returns (Some wav) \<and>
                 length wav = 44 + 3 * 44100 * numberOfChannels buffer * 2)"
    using a sl len by (simp add: exportRegion_def)
qed

theorem audioBufferToWav_size_witness:
  "\<exists>wav. exportRegion (\<lambda>n len sr. n \<le> 32 \<and> 8000 \<le> sr \<and> sr \<le> 96000) (\<lambda>x. 0) ''region-a''
     ((mounted \<lparr>getCurrentTime = 0, getDuration = 10,
          getDecodedData = Some \<lparr>sampleRate = 44100, ab_length = 441000,
            channels = [replicate 441000 (F32 0), replicate 441000 (F32 0)]\<rparr>\<rparr>
        False False None)
      \<lparr>regionsPluginRef := Some \<lparr>regions = [\<lparr>region_id = ''region-a'', region_start = 2,
          region_end = 5, region_color = ''c'', region_drag = True, region_resize = True,
          region_content = ClipLabel\<rparr>], waiting = []\<rparr>\<rparr>) = Returns (Some wav) \<and>
     length wav = 529244"
  using audioBufferToWav_size [where q = "\<lambda>x. 0"
     and ctx = "\<lambda>n len sr. n \<le> 32 \<and> 8000 \<le> sr \<and> sr \<le> 96000" and s =
     "(mounted \<lparr>getCurrentTime = 0, getDuration = 10,
          getDecodedData = Some \<lparr>sampleRate = 44100, ab_length = 441000,
            channels = [replicate 441000 (F32 0), replicate 441000 (F32 0)]\<rparr>\<rparr>
        False False None)
      \<lparr>regionsPluginRef := Some \<lparr>regions = [\<lparr>region_id = ''region-a'', region_start = 2,
          region_end = 5, region_color = ''c'', region_drag = True, region_resize = True,
          region_content = ClipLabel\<rparr>], waiting = []\<rparr>\<rparr>"
     and ws = "\<lparr>getCurrentTime = 0, getDuration = 10,
          getDecodedData = Some \<lparr>sampleRate = 44100, ab_length = 441000,
            channels = [replicate 441000 (F32 0), replicate 441000 (F32 0)]\<rparr>\<rparr>"
     and buffer = "\<lparr>sampleRate = 44100, ab_length = 441000,
            channels = [replicate 441000 (F32 0), replicate 441000 (F32 0)]\<rparr>"
     and i = "''region-a''"
     and region = "\<lparr>region_id = ''region-a'', region_start = 2,
          region_end = 5, region_color = ''c'', region_drag = True, region_resize = True,
          region_content = ClipLabel\<rparr>"]
  by (simp add: mounted_def getRegions_def numberOfChannels_def)

end
